theory Spec2Isabelle
  imports Complex_Main "HOL-Library.AList"
begin

section \<open>Numbers, identifiers and time\<close>

text \<open>
  Amounts are JavaScript numbers in major currency units (the settlement code compares
  them with 0.01). They are embedded as exact rationals: the arithmetic of the source is
  kept operation by operation, and the rounding of IEEE doubles is not part of the model.
  Identifiers and text are strings. An instant is a number of milliseconds since the epoch.
\<close>

type_synonym money = rat
type_synonym timestamp = int

datatype error =
    DatabaseNotInitialized
  | ExpenseNotFound
  | KeychainFailure
  | EncryptionKeyNotAvailable
  | EncryptionFailed
  | DecryptionTagMismatch
  | DecryptionFailed

section \<open>Entities\<close>

text \<open>
  The interfaces of \<^verbatim>\<open>types/index.ts\<close>. An optional property is an option; the
  service code also reads and writes \<open>paidByMemberId\<close> on expenses.
\<close>

record GroupMember =
  member_id :: string
  member_groupId :: string
  member_userId :: string
  member_name :: string

record Expense =
  expense_id :: string
  expense_amount :: money
  expense_currencyCode :: string
  expense_baseAmount :: "money option"
  expense_category :: string
  expense_description :: "string option"
  expense_notes :: "string option"
  expense_date :: string
  expense_groupId :: "string option"
  expense_paidByMemberId :: "string option"
  expense_createdAt :: timestamp
  expense_updatedAt :: timestamp

text \<open>
  A date column holds an ISO 8601 text. Two forms occur: a calendar date
  \<^verbatim>\<open>yyyy-MM-dd\<close>, which the forms of the application produce, and the text of an
  instant that \<open>toISOString\<close> prints. Texts that do not parse are not part of the model.
\<close>

datatype iso_text = DateOnly int int int | Instant timestamp

datatype RecurringInterval = Daily | Weekly | Monthly | Custom | OtherInterval

record RecurringExpense =
  rec_id :: string
  rec_amount :: money
  rec_currencyCode :: string
  rec_category :: string
  rec_description :: "string option"
  rec_interval :: RecurringInterval
  rec_intervalValue :: int
  rec_startDate :: iso_text
  rec_endDate :: "iso_text option"
  rec_lastGenerated :: "iso_text option"
  rec_groupId :: "string option"
  rec_createdAt :: timestamp
  rec_updatedAt :: timestamp

datatype undo_type = UndoDelete | UndoEdit | UndoAdd

datatype undo_entity = EntityExpense | EntityGroup | EntityRecurring | EntityTag

text \<open>
  The payload of an undo action is the JSON text of an expense: the store of expenses is
  the only caller of \<open>saveUndoAction\<close>.
\<close>

record UndoAction =
  undo_id :: string
  undo_type :: undo_type
  undo_entityType :: undo_entity
  undo_payload :: Expense
  undo_timestamp :: timestamp

section \<open>The local database\<close>

record split_row =
  split_id :: string
  split_expenseId :: string
  split_memberId :: string
  split_amount :: money
  split_percentage :: "rat option"
  split_createdAt :: timestamp

record payment_row =
  payment_id :: string
  payment_groupId :: string
  payment_fromMemberId :: string
  payment_toMemberId :: string
  payment_amount :: money
  payment_currencyCode :: string
  payment_date :: string
  payment_notes :: "string option"
  payment_createdAt :: timestamp

record expense_row =
  row_id :: string
  row_amount :: money
  row_currency_code :: string
  row_category :: string
  row_description :: "string option"
  row_notes_encrypted :: "string option"
  row_date :: string
  row_group_id :: "string option"
  row_paid_by_member_id :: "string option"
  row_created_at :: timestamp
  row_updated_at :: timestamp

record database =
  tbl_expenses :: "expense_row list"
  tbl_expense_splits :: "split_row list"
  tbl_payments :: "payment_row list"
  tbl_recurring_expenses :: "RecurringExpense list"
  tbl_undo_history :: "UndoAction list"

text \<open>
  \<open>getDatabase\<close> of \<^verbatim>\<open>database/index.ts\<close> throws when the connection has not been
  opened; the connection is an optional database.
\<close>

definition getDatabase :: "database option \<Rightarrow> error + database" where
  "getDatabase conn = (case conn of None \<Rightarrow> Inl DatabaseNotInitialized | Some d \<Rightarrow> Inr d)"

text \<open>
  Modelled from the spec: the SQL texts of \<^verbatim>\<open>database/queries\<close> (the constant
  \<open>QUERIES\<close>) are not among the sources. The Ledger Store contract of the specification
  is insert, update, delete, get and list per entity kind. \<open>DELETE_SPLITS_BY_EXPENSE\<close>
  removes the splits of one expense and \<open>INSERT_SPLIT\<close> appends a row; the parameter
  order is the one of the call sites.
\<close>

definition DELETE_SPLITS_BY_EXPENSE :: "string \<Rightarrow> database \<Rightarrow> database" where
  "DELETE_SPLITS_BY_EXPENSE expenseId d =
     d\<lparr>tbl_expense_splits := filter (\<lambda>r. split_expenseId r \<noteq> expenseId) (tbl_expense_splits d)\<rparr>"

definition INSERT_SPLIT ::
  "string \<Rightarrow> string \<Rightarrow> string \<Rightarrow> money \<Rightarrow> rat option \<Rightarrow> timestamp \<Rightarrow> database \<Rightarrow> database" where
  "INSERT_SPLIT i expenseId memberId amount percentage now d =
     d\<lparr>tbl_expense_splits := tbl_expense_splits d @
        [\<lparr>split_id = i, split_expenseId = expenseId, split_memberId = memberId,
          split_amount = amount, split_percentage = percentage, split_createdAt = now\<rparr>]\<rparr>"

definition GET_SPLITS_BY_EXPENSE :: "string \<Rightarrow> database \<Rightarrow> split_row list" where
  "GET_SPLITS_BY_EXPENSE expenseId d =
     filter (\<lambda>r. split_expenseId r = expenseId) (tbl_expense_splits d)"

definition GET_PAYMENTS_BY_GROUP :: "string \<Rightarrow> database \<Rightarrow> payment_row list" where
  "GET_PAYMENTS_BY_GROUP groupId d =
     filter (\<lambda>r. payment_groupId r = groupId) (tbl_payments d)"

section \<open>Split engine\<close>

text \<open>
  The three split functions of the group service. \<open>uuid k\<close> is the identifier that the
  \<open>k\<close>-th call of \<open>generateUUID\<close> within the operation returns, and \<open>now\<close> the clock
  reading of the operation. The loop over the members is a recursion over the list that
  counts the rows written so far.
\<close>

fun insertEqualSplits ::
  "(nat \<Rightarrow> string) \<Rightarrow> timestamp \<Rightarrow> string \<Rightarrow> money \<Rightarrow> nat \<Rightarrow> string list \<Rightarrow> database \<Rightarrow> database" where
  "insertEqualSplits uuid now expenseId amountPerMember k [] d = d"
| "insertEqualSplits uuid now expenseId amountPerMember k (memberId # rest) d =
     insertEqualSplits uuid now expenseId amountPerMember (Suc k) rest
       (INSERT_SPLIT (uuid k) expenseId memberId amountPerMember None now d)"

text \<open>
  For an empty member list the quotient of the source is not a finite number, and no row
  is written with it; the model's quotient is unused there as well.
\<close>

definition splitExpenseEqually ::
  "(nat \<Rightarrow> string) \<Rightarrow> timestamp \<Rightarrow> database option \<Rightarrow> string \<Rightarrow> string list \<Rightarrow> money
     \<Rightarrow> error + database" where
  "splitExpenseEqually uuid now conn expenseId memberIds totalAmount =
     (case getDatabase conn of
        Inl e \<Rightarrow> Inl e
      | Inr d \<Rightarrow>
          let amountPerMember = totalAmount / of_nat (length memberIds) in
          Inr (insertEqualSplits uuid now expenseId amountPerMember 0 memberIds
                 (DELETE_SPLITS_BY_EXPENSE expenseId d)))"

fun insertPercentageSplits ::
  "(nat \<Rightarrow> string) \<Rightarrow> timestamp \<Rightarrow> string \<Rightarrow> money \<Rightarrow> nat \<Rightarrow> (string \<times> rat) list \<Rightarrow> database
     \<Rightarrow> database" where
  "insertPercentageSplits uuid now expenseId totalAmount k [] d = d"
| "insertPercentageSplits uuid now expenseId totalAmount k ((memberId, percentage) # rest) d =
     insertPercentageSplits uuid now expenseId totalAmount (Suc k) rest
       (INSERT_SPLIT (uuid k) expenseId memberId ((totalAmount * percentage) / 100)
          (Some percentage) now d)"

definition splitExpenseByPercentage ::
  "(nat \<Rightarrow> string) \<Rightarrow> timestamp \<Rightarrow> database option \<Rightarrow> string \<Rightarrow> (string \<times> rat) list \<Rightarrow> money
     \<Rightarrow> error + database" where
  "splitExpenseByPercentage uuid now conn expenseId splits totalAmount =
     (case getDatabase conn of
        Inl e \<Rightarrow> Inl e
      | Inr d \<Rightarrow>
          Inr (insertPercentageSplits uuid now expenseId totalAmount 0 splits
                 (DELETE_SPLITS_BY_EXPENSE expenseId d)))"

fun insertAmountSplits ::
  "(nat \<Rightarrow> string) \<Rightarrow> timestamp \<Rightarrow> string \<Rightarrow> nat \<Rightarrow> (string \<times> money) list \<Rightarrow> database
     \<Rightarrow> database" where
  "insertAmountSplits uuid now expenseId k [] d = d"
| "insertAmountSplits uuid now expenseId k ((memberId, amount) # rest) d =
     insertAmountSplits uuid now expenseId (Suc k) rest
       (INSERT_SPLIT (uuid k) expenseId memberId amount None now d)"

definition splitExpenseByAmount ::
  "(nat \<Rightarrow> string) \<Rightarrow> timestamp \<Rightarrow> database option \<Rightarrow> string \<Rightarrow> (string \<times> money) list
     \<Rightarrow> error + database" where
  "splitExpenseByAmount uuid now conn expenseId splits =
     (case getDatabase conn of
        Inl e \<Rightarrow> Inl e
      | Inr d \<Rightarrow>
          Inr (insertAmountSplits uuid now expenseId 0 splits
                 (DELETE_SPLITS_BY_EXPENSE expenseId d)))"

text \<open>
  The equal split in the words of the specification, in integer minor units: every member
  gets the quotient, and the first \<open>amount mod N\<close> members one minor unit more.
\<close>

definition spec_equal_split :: "int \<Rightarrow> nat \<Rightarrow> int list" where
  "spec_equal_split amount n =
     map (\<lambda>i. amount div int n + (if int i < amount mod int n then 1 else 0)) [0..<n]"

definition split_amounts :: "string \<Rightarrow> error + database \<Rightarrow> error + money list" where
  "split_amounts expenseId r =
     (case r of Inl e \<Rightarrow> Inl e
      | Inr d \<Rightarrow> Inr (map split_amount (GET_SPLITS_BY_EXPENSE expenseId d)))"

definition minor_units :: "int list \<Rightarrow> money list" where
  "minor_units xs = map (\<lambda>c. of_int c / 100) xs"

text \<open>Concrete inputs for the examples: an identifier supply and an empty database.\<close>

definition sample_uuid :: "nat \<Rightarrow> string" where
  "sample_uuid k = ''uuid-'' @ replicate k (CHR ''x'')"

definition empty_database :: database where
  "empty_database = \<lparr>tbl_expenses = [], tbl_expense_splits = [], tbl_payments = [],
     tbl_recurring_expenses = [], tbl_undo_history = []\<rparr>"

section \<open>Balance calculator\<close>

text \<open>
  Group members, group expenses and their splits are documents of the remote store;
  payments are rows of the local database. The remote store is a record of what its
  three queries return for a group. A failing network request is outside the model.
\<close>

record firestore =
  getGroupMembers :: "string \<Rightarrow> GroupMember list"
  getGroupExpenses :: "string \<Rightarrow> Expense list"
  getExpenseSplits :: "string \<Rightarrow> string \<Rightarrow> split_row list"

text \<open>
  The balance object \<open>Record<string, number>\<close> is an association list in insertion
  order: assigning to a present key keeps its place, assigning to a new key appends it.
  \<open>balances[k] || 0\<close> reads a missing key as zero.
\<close>

type_synonym balances = "(string \<times> money) list"

definition balance_or_zero :: "balances \<Rightarrow> string \<Rightarrow> money" where
  "balance_or_zero b k = (case map_of b k of None \<Rightarrow> 0 | Some v \<Rightarrow> v)"

definition getPaymentsByGroup :: "database option \<Rightarrow> string \<Rightarrow> error + payment_row list" where
  "getPaymentsByGroup conn groupId =
     (case getDatabase conn of
        Inl e \<Rightarrow> Inl e
      | Inr d \<Rightarrow> Inr (GET_PAYMENTS_BY_GROUP groupId d))"

definition initBalance :: "balances \<Rightarrow> GroupMember \<Rightarrow> balances" where
  "initBalance b member = AList.update (member_id member) 0 b"

definition debitSplit :: "balances \<Rightarrow> split_row \<Rightarrow> balances" where
  "debitSplit b split =
     AList.update (split_memberId split)
       (balance_or_zero b (split_memberId split) - split_amount split) b"

definition creditPayer :: "balances \<Rightarrow> Expense \<Rightarrow> balances" where
  "creditPayer b expense =
     (case expense_paidByMemberId expense of
        None \<Rightarrow> b
      | Some paidByMemberId \<Rightarrow>
          if paidByMemberId \<noteq> [] \<and> map_of b paidByMemberId \<noteq> None
          then AList.update paidByMemberId
                 (balance_or_zero b paidByMemberId + expense_amount expense) b
          else b)"

definition applyExpense :: "firestore \<Rightarrow> string \<Rightarrow> balances \<Rightarrow> Expense \<Rightarrow> balances" where
  "applyExpense fs groupId b expense =
     foldl debitSplit (creditPayer b expense)
       (getExpenseSplits fs groupId (expense_id expense))"

definition applyPayment :: "balances \<Rightarrow> payment_row \<Rightarrow> balances" where
  "applyPayment b payment =
     (let b1 = AList.update (payment_fromMemberId payment)
                 (balance_or_zero b (payment_fromMemberId payment) - payment_amount payment) b
      in AList.update (payment_toMemberId payment)
           (balance_or_zero b1 (payment_toMemberId payment) + payment_amount payment) b1)"

definition calculateGroupBalances ::
  "firestore \<Rightarrow> database option \<Rightarrow> string \<Rightarrow> error + balances" where
  "calculateGroupBalances fs conn groupId =
     (let members = getGroupMembers fs groupId;
          balances0 = foldl initBalance [] members;
          expenses = getGroupExpenses fs groupId;
          balances1 = foldl (applyExpense fs groupId) balances0 expenses
      in case getPaymentsByGroup conn groupId of
           Inl e \<Rightarrow> Inl e
         | Inr payments \<Rightarrow> Inr (foldl applyPayment balances1 payments))"

definition sum_balances :: "balances \<Rightarrow> money" where
  "sum_balances b = sum_list (map snd b)"

text \<open>
  An expense is \<open>settled_expense\<close> for a set of member identifiers when its payer is a
  non-empty identifier of that set and the amounts of its splits add up to its amount.
\<close>

definition settled_expense :: "firestore \<Rightarrow> string \<Rightarrow> string set \<Rightarrow> Expense \<Rightarrow> bool" where
  "settled_expense fs g M e \<longleftrightarrow>
     (case expense_paidByMemberId e of None \<Rightarrow> False | Some p \<Rightarrow> p \<noteq> [] \<and> p \<in> M) \<and>
     sum_list (map split_amount (getExpenseSplits fs g (expense_id e))) = expense_amount e"

text \<open>The tolerance of the specification: two amounts differ by at most 0.01.\<close>

definition spec_within_tolerance :: "rat \<Rightarrow> rat \<Rightarrow> bool" where
  "spec_within_tolerance x y \<longleftrightarrow> \<bar>x - y\<bar> \<le> 1 / 100"

text \<open>
  Example groups. \<open>dinner_group\<close> is the scenario of the specification: members A, B and
  C, an expense of 90 paid by A and split equally. In \<open>departed_payer_group\<close> the payer of
  the expense is not among the members any more.
\<close>

definition mk_member :: "string \<Rightarrow> string \<Rightarrow> GroupMember" where
  "mk_member g i = \<lparr>member_id = i, member_groupId = g, member_userId = ''user-'' @ i,
     member_name = i\<rparr>"

definition mk_split :: "string \<Rightarrow> string \<Rightarrow> money \<Rightarrow> split_row" where
  "mk_split e m a = \<lparr>split_id = ''split-'' @ e @ m, split_expenseId = e, split_memberId = m,
     split_amount = a, split_percentage = None, split_createdAt = 0\<rparr>"

definition mk_expense :: "string \<Rightarrow> string \<Rightarrow> money \<Rightarrow> string \<Rightarrow> Expense" where
  "mk_expense g e a payer = \<lparr>expense_id = e, expense_amount = a, expense_currencyCode = ''USD'',
     expense_baseAmount = None, expense_category = ''Food'', expense_description = None, expense_notes = None,
     expense_date = ''2024-01-01'', expense_groupId = Some g,
     expense_paidByMemberId = Some payer, expense_createdAt = 0, expense_updatedAt = 0\<rparr>"

definition dinner_members :: "string \<Rightarrow> GroupMember list" where
  "dinner_members g = [mk_member g ''A'', mk_member g ''B'', mk_member g ''C'']"

definition dinner_expenses :: "string \<Rightarrow> Expense list" where
  "dinner_expenses g = [mk_expense g ''e1'' 90 ''A'']"

definition dinner_splits :: "string \<Rightarrow> string \<Rightarrow> split_row list" where
  "dinner_splits g e = [mk_split e ''A'' 30, mk_split e ''B'' 30, mk_split e ''C'' 30]"

definition dinner_group :: firestore where
  "dinner_group = \<lparr>getGroupMembers = dinner_members, getGroupExpenses = dinner_expenses,
     getExpenseSplits = dinner_splits\<rparr>"

definition departed_payer_members :: "string \<Rightarrow> GroupMember list" where
  "departed_payer_members g = [mk_member g ''A'', mk_member g ''B'']"

definition departed_payer_expenses :: "string \<Rightarrow> Expense list" where
  "departed_payer_expenses g = [mk_expense g ''e1'' 90 ''X'']"

definition departed_payer_splits :: "string \<Rightarrow> string \<Rightarrow> split_row list" where
  "departed_payer_splits g e = [mk_split e ''A'' 45, mk_split e ''B'' 45]"

definition departed_payer_group :: firestore where
  "departed_payer_group = \<lparr>getGroupMembers = departed_payer_members,
     getGroupExpenses = departed_payer_expenses, getExpenseSplits = departed_payer_splits\<rparr>"

section \<open>Settlement optimizer\<close>

record party =
  party_memberId :: string
  party_amount :: money

record suggestion =
  sug_from :: string
  sug_to :: string
  sug_amount :: money

text \<open>
  \<open>Math.round\<close> rounds to the nearest integer, a half towards positive infinity;
  \<open>round2\<close> is \<open>Math.round(x * 100) / 100\<close>.
\<close>

definition Math_round :: "rat \<Rightarrow> int" where
  "Math_round x = \<lfloor>x + 1 / 2\<rfloor>"

definition round2 :: "money \<Rightarrow> money" where
  "round2 x = of_int (Math_round (x * 100)) / 100"

text \<open>The body of \<open>members.forEach\<close>: a member joins the creditors, the debtors or neither.\<close>

definition classifyMember ::
  "balances \<Rightarrow> party list \<times> party list \<Rightarrow> GroupMember \<Rightarrow> party list \<times> party list" where
  "classifyMember b acc member =
     (let balance = balance_or_zero b (member_id member) in
      if balance > 1 / 100
      then (fst acc @ [\<lparr>party_memberId = member_id member, party_amount = balance\<rparr>], snd acc)
      else if balance < - (1 / 100)
      then (fst acc, snd acc @ [\<lparr>party_memberId = member_id member, party_amount = \<bar>balance\<bar>\<rparr>])
      else acc)"

text \<open>
  \<open>sort((a, b) => b.amount - a.amount)\<close> is a stable sort by decreasing amount:
  entries of equal amount keep their order.
\<close>

definition sortByAmountDesc :: "party list \<Rightarrow> party list" where
  "sortByAmountDesc ps = sort_key (\<lambda>p. - party_amount p) ps"

text \<open>
  The greedy loop, with the two arrays, the two indices and the suggestions so far. The
  entry at an index is updated in place.
\<close>

function settleLoop ::
  "party list \<Rightarrow> party list \<Rightarrow> nat \<Rightarrow> nat \<Rightarrow> suggestion list \<Rightarrow> suggestion list" where
  "settleLoop creditors debtors creditorIndex debtorIndex suggestions =
     (if creditorIndex < length creditors \<and> debtorIndex < length debtors
      then
        (let creditor = creditors ! creditorIndex;
             debtor = debtors ! debtorIndex
         in if party_amount creditor < 1 / 100 \<or> party_amount debtor < 1 / 100
            then suggestions
            else
              (let settlementAmount = min (party_amount creditor) (party_amount debtor);
                   suggestions' = suggestions @
                     [\<lparr>sug_from = party_memberId debtor, sug_to = party_memberId creditor,
                       sug_amount = round2 settlementAmount\<rparr>];
                   creditor' = creditor\<lparr>party_amount := party_amount creditor - settlementAmount\<rparr>;
                   debtor' = debtor\<lparr>party_amount := party_amount debtor - settlementAmount\<rparr>
               in settleLoop (creditors[creditorIndex := creditor'])
                    (debtors[debtorIndex := debtor'])
                    (if party_amount creditor' < 1 / 100 then creditorIndex + 1 else creditorIndex)
                    (if party_amount debtor' < 1 / 100 then debtorIndex + 1 else debtorIndex)
                    suggestions'))
      else suggestions)"
  by pat_completeness auto
termination
proof (relation "measure (\<lambda>(cs, ds, ci, di, acc). (length cs - ci) + (length ds - di))")
  show "wf (measure (\<lambda>(cs, ds, ci, di, acc). (length cs - ci) + (length ds - di)))"
    by simp
next
  fix creditors debtors :: "party list" and creditorIndex debtorIndex :: nat
    and suggestions suggestions' :: "suggestion list"
    and creditor debtor creditor' debtor' :: party and settlementAmount :: money
  assume idx: "creditorIndex < length creditors \<and> debtorIndex < length debtors"
    and c: "creditor = creditors ! creditorIndex" and d: "debtor = debtors ! debtorIndex"
    and big: "\<not> (party_amount creditor < 1 / 100 \<or> party_amount debtor < 1 / 100)"
    and s: "settlementAmount = min (party_amount creditor) (party_amount debtor)"
    and c': "creditor' = creditor\<lparr>party_amount := party_amount creditor - settlementAmount\<rparr>"
    and d': "debtor' = debtor\<lparr>party_amount := party_amount debtor - settlementAmount\<rparr>"
  have "party_amount creditor' < 1 / 100 \<or> party_amount debtor' < 1 / 100"
    using s c' d' by (cases "party_amount creditor \<le> party_amount debtor") (simp_all add: min_def)
  then show "((creditors[creditorIndex := creditor'], debtors[debtorIndex := debtor'],
        if party_amount creditor' < 1 / 100 then creditorIndex + 1 else creditorIndex,
        if party_amount debtor' < 1 / 100 then debtorIndex + 1 else debtorIndex, suggestions'),
       creditors, debtors, creditorIndex, debtorIndex, suggestions)
      \<in> measure (\<lambda>(cs, ds, ci, di, acc). (length cs - ci) + (length ds - di))"
    using idx by auto
qed

definition settlementSuggestions :: "balances \<Rightarrow> GroupMember list \<Rightarrow> suggestion list" where
  "settlementSuggestions b members =
     (let classified = foldl (classifyMember b) ([], []) members;
          creditors = sortByAmountDesc (fst classified);
          debtors = sortByAmountDesc (snd classified)
      in settleLoop creditors debtors 0 0 [])"

definition getSettlementSuggestions ::
  "firestore \<Rightarrow> database option \<Rightarrow> string \<Rightarrow> error + suggestion list" where
  "getSettlementSuggestions fs conn groupId =
     (case calculateGroupBalances fs conn groupId of
        Inl e \<Rightarrow> Inl e
      | Inr b \<Rightarrow> Inr (settlementSuggestions b (getGroupMembers fs groupId)))"



text \<open>The loop on the remaining parts of the two arrays, an equivalent form used in proofs.\<close>

function settle :: "party list \<Rightarrow> party list \<Rightarrow> suggestion list" where
  "settle [] ds = []"
| "settle (c # cs) [] = []"
| "settle (c # cs) (d # ds) =
     (if party_amount c < 1 / 100 \<or> party_amount d < 1 / 100 then []
      else
        \<lparr>sug_from = party_memberId d, sug_to = party_memberId c,
          sug_amount = round2 (min (party_amount c) (party_amount d))\<rparr> #
        settle
          (if party_amount c - min (party_amount c) (party_amount d) < 1 / 100 then cs
           else c\<lparr>party_amount := party_amount c - min (party_amount c) (party_amount d)\<rparr> # cs)
          (if party_amount d - min (party_amount c) (party_amount d) < 1 / 100 then ds
           else d\<lparr>party_amount := party_amount d - min (party_amount c) (party_amount d)\<rparr> # ds))"
  by pat_completeness auto
termination
  by (relation "measure (\<lambda>(cs, ds). length cs + length ds)") (auto simp: min_def)



definition whole_cents :: "money \<Rightarrow> bool" where
  "whole_cents x \<longleftrightarrow> x * 100 = of_int \<lfloor>x * 100\<rfloor>"





definition dinner_balances :: balances where
  "dinner_balances = [(''A'', 60), (''B'', - 30), (''C'', - 30)]"

definition creditorsOf :: "balances \<Rightarrow> GroupMember list \<Rightarrow> party list" where
  "creditorsOf b members =
     map (\<lambda>m. \<lparr>party_memberId = member_id m, party_amount = balance_or_zero b (member_id m)\<rparr>)
       (filter (\<lambda>m. balance_or_zero b (member_id m) > 1 / 100) members)"

definition debtorsOf :: "balances \<Rightarrow> GroupMember list \<Rightarrow> party list" where
  "debtorsOf b members =
     map (\<lambda>m. \<lparr>party_memberId = member_id m, party_amount = \<bar>balance_or_zero b (member_id m)\<bar>\<rparr>)
       (filter (\<lambda>m. \<not> balance_or_zero b (member_id m) > 1 / 100 \<and>
                     balance_or_zero b (member_id m) < - (1 / 100)) members)"

declare settleLoop.simps [simp del]

declare settle.simps [simp del]


section \<open>Secret box\<close>

text \<open>
  The encryption service keeps the key in a module variable and the key material in the
  device keychain. The keychain is its stored password and whether reading or writing it
  throws. The authenticated cipher of the library is a parameter: \<open>aead_seal key nonce
  plaintext\<close> stands for the body of the \<open>try\<close> block of \<open>encrypt\<close> and is \<open>None\<close> when a
  library call throws; \<open>aead_open key ciphertext\<close> stands for the body of the \<open>try\<close> block
  of \<open>decrypt\<close>. The random bytes that a call draws are a parameter as well.
\<close>

datatype open_result = Opened string | VerificationFailed | Malformed

record sodium =
  aead_seal :: "string \<Rightarrow> string \<Rightarrow> string \<Rightarrow> string option"
  aead_open :: "string \<Rightarrow> string \<Rightarrow> open_result"

record randomness =
  random_key :: string
  random_nonce :: string

record world =
  world_db :: "database option"
  encryptionKey :: "string option"
  keychain_password :: "string option"
  keychain_get_throws :: bool
  keychain_set_throws :: bool
  store_expenses :: "Expense list"

text \<open>Truthiness of an optional string, and \<open>x || null\<close>.\<close>

definition truthy :: "string option \<Rightarrow> bool" where
  "truthy s = (case s of None \<Rightarrow> False | Some t \<Rightarrow> t \<noteq> [])"

definition or_null :: "string option \<Rightarrow> string option" where
  "or_null s = (if truthy s then s else None)"

definition initEncryptionKey :: "randomness \<Rightarrow> world \<Rightarrow> (error + unit) \<times> world" where
  "initEncryptionKey rnd w =
     (if keychain_get_throws w then (Inl KeychainFailure, w)
      else case keychain_password w of
             Some password \<Rightarrow> (Inr (), w\<lparr>encryptionKey := Some password\<rparr>)
           | None \<Rightarrow>
               if keychain_set_throws w then (Inl KeychainFailure, w)
               else (Inr (), w\<lparr>keychain_password := Some (random_key rnd),
                                encryptionKey := Some (random_key rnd)\<rparr>))"

definition ensureEncryptionKey :: "randomness \<Rightarrow> world \<Rightarrow> (error + unit) \<times> world" where
  "ensureEncryptionKey rnd w =
     (if \<not> truthy (encryptionKey w) then initEncryptionKey rnd w else (Inr (), w))"

definition encrypt :: "sodium \<Rightarrow> randomness \<Rightarrow> string \<Rightarrow> world \<Rightarrow> (error + string) \<times> world" where
  "encrypt sod rnd plaintext w =
     (case ensureEncryptionKey rnd w of
        (Inl e, w1) \<Rightarrow> (Inl e, w1)
      | (Inr u, w1) \<Rightarrow>
          (case encryptionKey w1 of
             None \<Rightarrow> (Inl EncryptionKeyNotAvailable, w1)
           | Some key \<Rightarrow>
               if key = [] then (Inl EncryptionKeyNotAvailable, w1)
               else (case aead_seal sod key (random_nonce rnd) plaintext of
                       None \<Rightarrow> (Inl EncryptionFailed, w1)
                     | Some ciphertext \<Rightarrow> (Inr ciphertext, w1))))"

definition decrypt :: "sodium \<Rightarrow> randomness \<Rightarrow> string \<Rightarrow> world \<Rightarrow> (error + string) \<times> world" where
  "decrypt sod rnd ciphertext w =
     (case ensureEncryptionKey rnd w of
        (Inl e, w1) \<Rightarrow> (Inl e, w1)
      | (Inr u, w1) \<Rightarrow>
          (case encryptionKey w1 of
             None \<Rightarrow> (Inl EncryptionKeyNotAvailable, w1)
           | Some key \<Rightarrow>
               if key = [] then (Inl EncryptionKeyNotAvailable, w1)
               else (case aead_open sod key ciphertext of
                       Opened plaintext \<Rightarrow> (Inr plaintext, w1)
                     | VerificationFailed \<Rightarrow> (Inl DecryptionTagMismatch, w1)
                     | Malformed \<Rightarrow> (Inl DecryptionFailed, w1))))"


definition isEncryptionKeyAvailable :: "world \<Rightarrow> bool" where
  "isEncryptionKeyAvailable w \<longleftrightarrow> encryptionKey w \<noteq> None"

text \<open>
  A stand-in cipher for the examples: the sealed text is the nonce followed by the
  plaintext, and opening drops the 24 characters of the nonce.
\<close>

definition plain_sodium :: sodium where
  "plain_sodium = \<lparr>aead_seal = (\<lambda>key nonce plaintext. Some (nonce @ plaintext)),
     aead_open = (\<lambda>key ciphertext.
        if length ciphertext < 24 then Malformed else Opened (drop 24 ciphertext))\<rparr>"

definition sample_randomness :: randomness where
  "sample_randomness = \<lparr>random_key = ''00112233445566778899aabbccddeeff'',
     random_nonce = ''nonce-nonce-nonce-nonce-''\<rparr>"

definition locked_world :: world where
  "locked_world = \<lparr>world_db = Some empty_database, encryptionKey = None,
     keychain_password = Some ''00ff00ff00ff00ff00ff00ff00ff00ff'',
     keychain_get_throws = False, keychain_set_throws = False, store_expenses = []\<rparr>"

section \<open>Personal expense service\<close>

text \<open>
  Modelled from the spec: the SQL texts of the expense queries are not among the sources.
  \<open>INSERT_EXPENSE\<close> appends a row, \<open>UPDATE_EXPENSE\<close> overwrites the columns of the rows
  with the given id except \<open>id\<close> and \<open>created_at\<close>, \<open>DELETE_EXPENSE\<close> removes the rows
  with the given id, and \<open>GET_EXPENSE_BY_ID\<close> lists them; the columns are in the order of
  the parameters at the call sites.
\<close>

definition INSERT_EXPENSE :: "expense_row \<Rightarrow> database \<Rightarrow> database" where
  "INSERT_EXPENSE row d = d\<lparr>tbl_expenses := tbl_expenses d @ [row]\<rparr>"

definition UPDATE_EXPENSE ::
  "money \<Rightarrow> string \<Rightarrow> string \<Rightarrow> string option \<Rightarrow> string option \<Rightarrow> string \<Rightarrow> string option
     \<Rightarrow> string option \<Rightarrow> timestamp \<Rightarrow> string \<Rightarrow> database \<Rightarrow> database" where
  "UPDATE_EXPENSE amount currency category description notes date groupId paidBy updatedAt i d =
     d\<lparr>tbl_expenses :=
         map (\<lambda>r. if row_id r = i
                   then r\<lparr>row_amount := amount, row_currency_code := currency,
                          row_category := category, row_description := description,
                          row_notes_encrypted := notes, row_date := date,
                          row_group_id := groupId, row_paid_by_member_id := paidBy,
                          row_updated_at := updatedAt\<rparr>
                   else r)
             (tbl_expenses d)\<rparr>"


definition GET_EXPENSE_BY_ID :: "string \<Rightarrow> database \<Rightarrow> expense_row list" where
  "GET_EXPENSE_BY_ID i d = filter (\<lambda>r. row_id r = i) (tbl_expenses d)"

definition decryptNotes ::
  "sodium \<Rightarrow> randomness \<Rightarrow> string option \<Rightarrow> world \<Rightarrow> (error + string option) \<times> world" where
  "decryptNotes sod rnd notes_encrypted w =
     (case notes_encrypted of
        None \<Rightarrow> (Inr None, w)
      | Some c \<Rightarrow>
          if c = [] then (Inr None, w)
          else (case decrypt sod rnd c w of
                  (Inl e, w1) \<Rightarrow> (Inl e, w1)
                | (Inr plaintext, w1) \<Rightarrow> (Inr (Some plaintext), w1)))"

definition encryptNotes ::
  "sodium \<Rightarrow> randomness \<Rightarrow> string option \<Rightarrow> world \<Rightarrow> (error + string option) \<times> world" where
  "encryptNotes sod rnd notes w =
     (case notes of
        None \<Rightarrow> (Inr None, w)
      | Some n \<Rightarrow>
          if n = [] then (Inr None, w)
          else (case encrypt sod rnd n w of
                  (Inl e, w1) \<Rightarrow> (Inl e, w1)
                | (Inr ciphertext, w1) \<Rightarrow> (Inr (Some ciphertext), w1)))"

definition getExpenseById ::
  "sodium \<Rightarrow> randomness \<Rightarrow> string \<Rightarrow> world \<Rightarrow> (error + Expense option) \<times> world" where
  "getExpenseById sod rnd i w =
     (case getDatabase (world_db w) of
        Inl e \<Rightarrow> (Inl e, w)
      | Inr d \<Rightarrow>
          (case GET_EXPENSE_BY_ID i d of
             [] \<Rightarrow> (Inr None, w)
           | row # rest \<Rightarrow>
               (case decryptNotes sod rnd (row_notes_encrypted row) w of
                  (Inl e, w1) \<Rightarrow> (Inl e, w1)
                | (Inr notes, w1) \<Rightarrow>
                    (Inr (Some \<lparr>expense_id = row_id row, expense_amount = row_amount row,
                       expense_currencyCode = row_currency_code row, expense_baseAmount = None,
                       expense_category = row_category row,
                       expense_description = row_description row, expense_notes = notes,
                       expense_date = row_date row, expense_groupId = row_group_id row,
                       expense_paidByMemberId = row_paid_by_member_id row,
                       expense_createdAt = row_created_at row,
                       expense_updatedAt = row_updated_at row\<rparr>), w1))))"

text \<open>
  \<open>createExpense\<close>: \<open>uid\<close> is the identifier that \<open>generateUUID\<close> returns and \<open>now\<close> the
  clock reading. The parameter type of the source leaves out \<open>groupId\<close> and
  \<open>paidByMemberId\<close>; callers pass objects that carry them, and the returned object is the
  argument with \<open>id\<close>, \<open>createdAt\<close> and \<open>updatedAt\<close> replaced.
\<close>

definition createExpense ::
  "sodium \<Rightarrow> randomness \<Rightarrow> string \<Rightarrow> timestamp \<Rightarrow> Expense \<Rightarrow> world \<Rightarrow> (error + Expense) \<times> world" where
  "createExpense sod rnd uid now expense w =
     (case getDatabase (world_db w) of
        Inl e \<Rightarrow> (Inl e, w)
      | Inr d \<Rightarrow>
          (case encryptNotes sod rnd (expense_notes expense) w of
             (Inl e, w1) \<Rightarrow> (Inl e, w1)
           | (Inr notesEncrypted, w1) \<Rightarrow>
               (Inr (expense\<lparr>expense_id := uid, expense_createdAt := now,
                             expense_updatedAt := now\<rparr>),
                w1\<lparr>world_db := Some (INSERT_EXPENSE
                   \<lparr>row_id = uid, row_amount = expense_amount expense,
                     row_currency_code = expense_currencyCode expense,
                     row_category = expense_category expense,
                     row_description = or_null (expense_description expense),
                     row_notes_encrypted = notesEncrypted, row_date = expense_date expense,
                     row_group_id = None, row_paid_by_member_id = None,
                     row_created_at = now, row_updated_at = now\<rparr> d)\<rparr>)))"

text \<open>
  \<open>Partial<...>\<close>: a property of the update object is absent (\<open>None\<close>) or present with a
  value; for an optional property the value may be \<open>undefined\<close>, which the object spread
  copies like any other value.
\<close>

record ExpenseUpdates =
  upd_amount :: "money option"
  upd_currencyCode :: "string option"
  upd_baseAmount :: "money option option"
  upd_category :: "string option"
  upd_description :: "string option option"
  upd_notes :: "string option option"
  upd_date :: "string option"
  upd_groupId :: "string option option"
  upd_paidByMemberId :: "string option option"

definition spread :: "'a \<Rightarrow> 'a option \<Rightarrow> 'a" where
  "spread old new = (case new of None \<Rightarrow> old | Some v \<Rightarrow> v)"

definition applyUpdates :: "Expense \<Rightarrow> ExpenseUpdates \<Rightarrow> timestamp \<Rightarrow> Expense" where
  "applyUpdates existing updates now =
     existing\<lparr>expense_amount := spread (expense_amount existing) (upd_amount updates),
       expense_currencyCode := spread (expense_currencyCode existing) (upd_currencyCode updates),
       expense_baseAmount := spread (expense_baseAmount existing) (upd_baseAmount updates),
       expense_category := spread (expense_category existing) (upd_category updates),
       expense_description := spread (expense_description existing) (upd_description updates),
       expense_notes := spread (expense_notes existing) (upd_notes updates),
       expense_date := spread (expense_date existing) (upd_date updates),
       expense_groupId := spread (expense_groupId existing) (upd_groupId updates),
       expense_paidByMemberId :=
         spread (expense_paidByMemberId existing) (upd_paidByMemberId updates),
       expense_updatedAt := now\<rparr>"

definition updateExpense ::
  "sodium \<Rightarrow> randomness \<Rightarrow> timestamp \<Rightarrow> string \<Rightarrow> ExpenseUpdates \<Rightarrow> world
     \<Rightarrow> (error + Expense) \<times> world" where
  "updateExpense sod rnd now i updates w =
     (case getDatabase (world_db w) of
        Inl e \<Rightarrow> (Inl e, w)
      | Inr d \<Rightarrow>
          (case getExpenseById sod rnd i w of
             (Inl e, w1) \<Rightarrow> (Inl e, w1)
           | (Inr None, w1) \<Rightarrow> (Inl ExpenseNotFound, w1)
           | (Inr (Some existing), w1) \<Rightarrow>
               (let updated = applyUpdates existing updates now in
                case encryptNotes sod rnd (expense_notes updated) w1 of
                  (Inl e, w2) \<Rightarrow> (Inl e, w2)
                | (Inr notesEncrypted, w2) \<Rightarrow>
                    (Inr updated,
                     w2\<lparr>world_db := Some (UPDATE_EXPENSE (expense_amount updated)
                        (expense_currencyCode updated) (expense_category updated)
                        (or_null (expense_description updated)) notesEncrypted
                        (expense_date updated) None None (expense_updatedAt updated) i d)\<rparr>))))"


section \<open>Undo service\<close>

text \<open>
  Modelled from the spec: the SQL texts of the undo queries are not among the sources.
  \<open>INSERT_UNDO_ACTION\<close> appends an entry; \<open>CLEAR_OLD_UNDO_HISTORY\<close> removes the entries
  older than the cutoff (the specification: recording prunes entries older than a fixed
  retention window); \<open>GET_UNDO_HISTORY\<close> lists the most recent entries first, at most
  \<open>limit\<close> of them (the specification: undo pops the most recent entry);
  \<open>DELETE_UNDO_ACTION\<close> removes the entries with the given id.
\<close>

definition INSERT_UNDO_ACTION :: "UndoAction \<Rightarrow> database \<Rightarrow> database" where
  "INSERT_UNDO_ACTION a d = d\<lparr>tbl_undo_history := tbl_undo_history d @ [a]\<rparr>"

definition CLEAR_OLD_UNDO_HISTORY :: "timestamp \<Rightarrow> database \<Rightarrow> database" where
  "CLEAR_OLD_UNDO_HISTORY cutoff d =
     d\<lparr>tbl_undo_history := filter (\<lambda>a. \<not> undo_timestamp a < cutoff) (tbl_undo_history d)\<rparr>"



definition MAX_UNDO_HISTORY :: nat where
  "MAX_UNDO_HISTORY = 50"

definition days_ms :: "int \<Rightarrow> int" where
  "days_ms n = n * 86400000"

text \<open>
  \<open>saveUndoAction\<close>: the cutoff is the clock reading moved back by seven calendar days,
  which is seven times 24 hours in a time zone with a fixed offset.
\<close>

definition saveUndoAction ::
  "string \<Rightarrow> timestamp \<Rightarrow> undo_type \<Rightarrow> undo_entity \<Rightarrow> Expense \<Rightarrow> world \<Rightarrow> (error + unit) \<times> world" where
  "saveUndoAction uid now type entityType payload w =
     (case getDatabase (world_db w) of
        Inl e \<Rightarrow> (Inl e, w)
      | Inr d \<Rightarrow>
          (Inr (), w\<lparr>world_db := Some (CLEAR_OLD_UNDO_HISTORY (now - days_ms 7)
             (INSERT_UNDO_ACTION \<lparr>undo_id = uid, undo_type = type, undo_entityType = entityType,
                undo_payload = payload, undo_timestamp = now\<rparr> d))\<rparr>))"






section \<open>Store of expenses\<close>

text \<open>
  The actions of the in-memory store that record undo entries. \<open>uid\<close> is the identifier
  of the new expense and \<open>undoUid\<close> the identifier of the undo entry. \<open>addExpense\<close>
  rethrows an exception; \<open>updateExpense\<close> and \<open>deleteExpense\<close> of the store swallow it.
\<close>

definition findExpense :: "string \<Rightarrow> Expense list \<Rightarrow> Expense option" where
  "findExpense i es = (case filter (\<lambda>e. expense_id e = i) es of [] \<Rightarrow> None | e # rest \<Rightarrow> Some e)"


definition store_updateExpense ::
  "sodium \<Rightarrow> randomness \<Rightarrow> string \<Rightarrow> timestamp \<Rightarrow> string \<Rightarrow> ExpenseUpdates \<Rightarrow> world \<Rightarrow> world" where
  "store_updateExpense sod rnd undoUid now i updates w =
     (case (case findExpense i (store_expenses w) of
              None \<Rightarrow> (Inr (), w)
            | Some existing \<Rightarrow> saveUndoAction undoUid now UndoEdit EntityExpense existing w) of
        (Inl e, w1) \<Rightarrow> w1
      | (Inr u, w1) \<Rightarrow>
          (case updateExpense sod rnd now i updates w1 of
             (Inl e, w2) \<Rightarrow> w2
           | (Inr updated, w2) \<Rightarrow>
               w2\<lparr>store_expenses :=
                    map (\<lambda>e. if expense_id e = i then updated else e) (store_expenses w2)\<rparr>))"


section \<open>Dates\<close>

text \<open>
  A \<open>Date\<close> is its time value, the milliseconds since the epoch. The local time zone has
  a fixed offset of \<open>tz\<close> minutes east of UTC. The proleptic Gregorian calendar is
  computed on day numbers, day 0 being 1970-01-01; months are numbered from 1.
\<close>

type_synonym Date = int

definition days_from_civil :: "int \<Rightarrow> int \<Rightarrow> int \<Rightarrow> int" where
  "days_from_civil y m d =
     (let y' = (if m \<le> 2 then y - 1 else y);
          era = y' div 400;
          yoe = y' - era * 400;
          mp = (m + 9) mod 12;
          doy = (153 * mp + 2) div 5 + d - 1;
          doe = yoe * 365 + yoe div 4 - yoe div 100 + doy
      in era * 146097 + doe - 719468)"

definition civil_from_days :: "int \<Rightarrow> int \<times> int \<times> int" where
  "civil_from_days z =
     (let z' = z + 719468;
          era = z' div 146097;
          doe = z' - era * 146097;
          yoe = (doe - doe div 1460 + doe div 36524 - doe div 146096) div 365;
          y = yoe + era * 400;
          doy = doe - (365 * yoe + yoe div 4 - yoe div 100);
          mp = (5 * doy + 2) div 153;
          d = doy - (153 * mp + 2) div 5 + 1;
          m = (if mp < 10 then mp + 3 else mp - 9)
      in (if m \<le> 2 then y + 1 else y, m, d))"

definition is_leap_year :: "int \<Rightarrow> bool" where
  "is_leap_year y \<longleftrightarrow> y mod 4 = 0 \<and> (y mod 100 \<noteq> 0 \<or> y mod 400 = 0)"

definition days_in_month :: "int \<Rightarrow> int \<Rightarrow> int" where
  "days_in_month y m =
     (if m = 2 then (if is_leap_year y then 29 else 28)
      else if m = 4 \<or> m = 6 \<or> m = 9 \<or> m = 11 then 30
      else 31)"

definition local_ms :: "int \<Rightarrow> Date \<Rightarrow> int" where
  "local_ms tz d = d + tz * 60000"

definition from_local :: "int \<Rightarrow> int \<Rightarrow> int \<Rightarrow> Date" where
  "from_local tz dayNumber msOfDay = dayNumber * 86400000 + msOfDay - tz * 60000"

definition parseISO :: "int \<Rightarrow> iso_text \<Rightarrow> Date" where
  "parseISO tz t =
     (case t of
        DateOnly y m d \<Rightarrow> from_local tz (days_from_civil y m d) 0
      | Instant ms \<Rightarrow> ms)"

definition isBefore :: "Date \<Rightarrow> Date \<Rightarrow> bool" where
  "isBefore date dateToCompare \<longleftrightarrow> date < dateToCompare"

text \<open>\<open>a.toDateString() === b.toDateString()\<close>: the same local calendar day.\<close>

definition sameLocalDay :: "int \<Rightarrow> Date \<Rightarrow> Date \<Rightarrow> bool" where
  "sameLocalDay tz a b \<longleftrightarrow> local_ms tz a div 86400000 = local_ms tz b div 86400000"

text \<open>
  \<open>addDays\<close> sets the local day of the month to the old one plus the amount; with a fixed
  offset that is the amount times 24 hours. \<open>addMonths\<close> keeps the local day of the month
  unless the target month is shorter, in which case it takes the last day of that month;
  the local time of day is kept. An amount of zero returns the date.
\<close>

definition addDays :: "int \<Rightarrow> Date \<Rightarrow> int \<Rightarrow> Date" where
  "addDays tz date amount = date + days_ms amount"

definition addWeeks :: "int \<Rightarrow> Date \<Rightarrow> int \<Rightarrow> Date" where
  "addWeeks tz date amount = addDays tz date (amount * 7)"

definition addMonths :: "int \<Rightarrow> Date \<Rightarrow> int \<Rightarrow> Date" where
  "addMonths tz date amount =
     (if amount = 0 then date
      else
        (let l = local_ms tz date;
             msOfDay = l mod 86400000;
             ymd = civil_from_days (l div 86400000);
             dayOfMonth = snd (snd ymd);
             monthIndex = fst ymd * 12 + (fst (snd ymd) - 1) + amount;
             y' = monthIndex div 12;
             m' = monthIndex mod 12 + 1;
             daysInMonth = days_in_month y' m'
         in if dayOfMonth \<ge> daysInMonth
            then from_local tz (days_from_civil y' m' daysInMonth) msOfDay
            else from_local tz (days_from_civil y' m' dayOfMonth) msOfDay))"

definition getNextDate :: "int \<Rightarrow> Date \<Rightarrow> RecurringInterval \<Rightarrow> int \<Rightarrow> Date" where
  "getNextDate tz date interval v =
     (case interval of
        Daily \<Rightarrow> addDays tz date v
      | Weekly \<Rightarrow> addWeeks tz date v
      | Monthly \<Rightarrow> addMonths tz date v
      | Custom \<Rightarrow> addDays tz date v
      | OtherInterval \<Rightarrow> addDays tz date 1)"

text \<open>
  \<open>toISOString().split('T')[0]\<close>: the calendar date in UTC, for years 0 to 9999.
\<close>

definition digit_char :: "int \<Rightarrow> char" where
  "digit_char n = ''0123456789'' ! nat n"

definition pad2 :: "int \<Rightarrow> string" where
  "pad2 n = [digit_char (n div 10 mod 10), digit_char (n mod 10)]"

definition pad4 :: "int \<Rightarrow> string" where
  "pad4 n = [digit_char (n div 1000 mod 10), digit_char (n div 100 mod 10),
     digit_char (n div 10 mod 10), digit_char (n mod 10)]"

definition utcDateString :: "Date \<Rightarrow> string" where
  "utcDateString date =
     (let ymd = civil_from_days (date div 86400000)
      in pad4 (fst ymd) @ ''-'' @ pad2 (fst (snd ymd)) @ ''-'' @ pad2 (snd (snd ymd)))"

section \<open>Recurrence planner\<close>

text \<open>
  Modelled from the spec: the SQL texts of the recurring queries are not among the
  sources. \<open>GET_ALL_RECURRING\<close> lists the rules and \<open>UPDATE_RECURRING\<close> overwrites the
  columns of the rules with the given id except \<open>id\<close> and \<open>created_at\<close>.
\<close>

definition GET_ALL_RECURRING :: "database \<Rightarrow> RecurringExpense list" where
  "GET_ALL_RECURRING d = tbl_recurring_expenses d"

definition UPDATE_RECURRING ::
  "money \<Rightarrow> string \<Rightarrow> string \<Rightarrow> string option \<Rightarrow> RecurringInterval \<Rightarrow> int \<Rightarrow> iso_text
     \<Rightarrow> iso_text option \<Rightarrow> iso_text option \<Rightarrow> string option \<Rightarrow> timestamp \<Rightarrow> string
     \<Rightarrow> database \<Rightarrow> database" where
  "UPDATE_RECURRING amount currency category description interval intervalValue startDate
       endDate lastGenerated groupId updatedAt i d =
     d\<lparr>tbl_recurring_expenses :=
         map (\<lambda>r. if rec_id r = i
                   then r\<lparr>rec_amount := amount, rec_currencyCode := currency,
                          rec_category := category, rec_description := description,
                          rec_interval := interval, rec_intervalValue := intervalValue,
                          rec_startDate := startDate, rec_endDate := endDate,
                          rec_lastGenerated := lastGenerated, rec_groupId := groupId,
                          rec_updatedAt := updatedAt\<rparr>
                   else r)
             (tbl_recurring_expenses d)\<rparr>"

definition getAllRecurringExpenses :: "world \<Rightarrow> error + RecurringExpense list" where
  "getAllRecurringExpenses w =
     (case getDatabase (world_db w) of
        Inl e \<Rightarrow> Inl e
      | Inr d \<Rightarrow> Inr (GET_ALL_RECURRING d))"

text \<open>
  The object literal that the loop passes to \<open>createExpense\<close> and pushes to the result:
  it has no \<open>id\<close>, \<open>notes\<close>, \<open>paidByMemberId\<close> or time stamps.
\<close>

definition occurrenceExpense :: "RecurringExpense \<Rightarrow> Date \<Rightarrow> Expense" where
  "occurrenceExpense pattern currentDate =
     \<lparr>expense_id = [], expense_amount = rec_amount pattern,
      expense_currencyCode = rec_currencyCode pattern, expense_baseAmount = None,
      expense_category = rec_category pattern,
      expense_description = rec_description pattern, expense_notes = None,
      expense_date = utcDateString currentDate, expense_groupId = rec_groupId pattern,
      expense_paidByMemberId = None, expense_createdAt = 0, expense_updatedAt = 0\<rparr>"

definition markGenerated :: "RecurringExpense \<Rightarrow> Date \<Rightarrow> timestamp \<Rightarrow> database \<Rightarrow> database" where
  "markGenerated pattern currentDate now d =
     UPDATE_RECURRING (rec_amount pattern) (rec_currencyCode pattern) (rec_category pattern)
       (or_null (rec_description pattern)) (rec_interval pattern) (rec_intervalValue pattern)
       (rec_startDate pattern) (rec_endDate pattern) (Some (Instant currentDate))
       (or_null (rec_groupId pattern)) now (rec_id pattern) d"

definition endedBefore :: "Date option \<Rightarrow> Date \<Rightarrow> bool" where
  "endedBefore endDate date = (case endDate of None \<Rightarrow> False | Some e \<Rightarrow> isBefore e date)"

text \<open>
  The \<open>while\<close> loop of one rule. It need not terminate (an interval value of zero never
  advances), so the result is optional and \<open>None\<close> stands for a loop that runs forever.
  \<open>uuid k\<close> is the identifier of the \<open>k\<close>-th expense created by the run.
\<close>

partial_function (option) generateOccurrences ::
  "sodium \<Rightarrow> randomness \<Rightarrow> (nat \<Rightarrow> string) \<Rightarrow> int \<Rightarrow> timestamp \<Rightarrow> RecurringExpense \<Rightarrow> Date option
     \<Rightarrow> Date \<Rightarrow> world \<Rightarrow> Expense list \<Rightarrow> ((error + Expense list) \<times> world) option" where
  "generateOccurrences sod rnd uuid tz now pattern endDate currentDate w generated =
     (if isBefore currentDate now \<or> sameLocalDay tz currentDate now
      then
        (if endedBefore endDate currentDate then Some (Inr generated, w)
         else
           (case createExpense sod rnd (uuid (length generated)) now
                   (occurrenceExpense pattern currentDate) w of
              (Inl e, w1) \<Rightarrow> Some (Inl e, w1)
            | (Inr created, w1) \<Rightarrow>
                (case getDatabase (world_db w1) of
                   Inl e \<Rightarrow> Some (Inl e, w1)
                 | Inr d \<Rightarrow>
                     generateOccurrences sod rnd uuid tz now pattern endDate
                       (getNextDate tz currentDate (rec_interval pattern)
                          (rec_intervalValue pattern))
                       (w1\<lparr>world_db := Some (markGenerated pattern currentDate now d)\<rparr>)
                       (generated @ [occurrenceExpense pattern currentDate]))))
      else Some (Inr generated, w))"

declare generateOccurrences.simps [code]

definition generateForPattern ::
  "sodium \<Rightarrow> randomness \<Rightarrow> (nat \<Rightarrow> string) \<Rightarrow> int \<Rightarrow> timestamp \<Rightarrow> RecurringExpense \<Rightarrow> world
     \<Rightarrow> Expense list \<Rightarrow> ((error + Expense list) \<times> world) option" where
  "generateForPattern sod rnd uuid tz now pattern w generated =
     (let startDate = parseISO tz (rec_startDate pattern);
          endDate = map_option (parseISO tz) (rec_endDate pattern)
      in if endedBefore endDate now then Some (Inr generated, w)
         else
           (let lastGenerated =
                  (case rec_lastGenerated pattern of
                     None \<Rightarrow> startDate
                   | Some t \<Rightarrow> parseISO tz t);
                currentDate = getNextDate tz lastGenerated (rec_interval pattern)
                                (rec_intervalValue pattern)
            in generateOccurrences sod rnd uuid tz now pattern endDate currentDate w generated))"

fun generateForPatterns ::
  "sodium \<Rightarrow> randomness \<Rightarrow> (nat \<Rightarrow> string) \<Rightarrow> int \<Rightarrow> timestamp \<Rightarrow> RecurringExpense list \<Rightarrow> world
     \<Rightarrow> Expense list \<Rightarrow> ((error + Expense list) \<times> world) option" where
  "generateForPatterns sod rnd uuid tz now [] w generated = Some (Inr generated, w)"
| "generateForPatterns sod rnd uuid tz now (pattern # rest) w generated =
     (case generateForPattern sod rnd uuid tz now pattern w generated of
        None \<Rightarrow> None
      | Some (Inl e, w1) \<Rightarrow> Some (Inl e, w1)
      | Some (Inr generated1, w1) \<Rightarrow>
          generateForPatterns sod rnd uuid tz now rest w1 generated1)"

definition generateRecurringExpenses ::
  "sodium \<Rightarrow> randomness \<Rightarrow> (nat \<Rightarrow> string) \<Rightarrow> int \<Rightarrow> timestamp \<Rightarrow> world
     \<Rightarrow> ((error + Expense list) \<times> world) option" where
  "generateRecurringExpenses sod rnd uuid tz now w =
     (case getAllRecurringExpenses w of
        Inl e \<Rightarrow> Some (Inl e, w)
      | Inr recurring \<Rightarrow> generateForPatterns sod rnd uuid tz now recurring w [])"


definition new_rows :: "database \<Rightarrow> database \<Rightarrow> expense_row list" where
  "new_rows d d' = drop (length (tbl_expenses d)) (tbl_expenses d')"

definition old_rows :: "database \<Rightarrow> database \<Rightarrow> expense_row list" where
  "old_rows d d' = take (length (tbl_expenses d)) (tbl_expenses d')"

text \<open>
  Notions for stating the properties of the planner. An occurrence date is \<open>due\<close> when the
  loop condition holds and the \<open>break\<close> does not: it is before now or on the local
  calendar day of now, and no end date is before it. A rule \<open>advances\<close> when its next date
  is always later than the date it is computed from. \<open>occurrences\<close> lists the due dates
  that the loop visits from a first date on, and \<open>day_end\<close> is the last instant of a
  local calendar day.
\<close>

definition due :: "int \<Rightarrow> timestamp \<Rightarrow> Date option \<Rightarrow> Date \<Rightarrow> bool" where
  "due tz now endDate c \<longleftrightarrow>
     (isBefore c now \<or> sameLocalDay tz c now) \<and> \<not> endedBefore endDate c"

definition nextDate :: "int \<Rightarrow> RecurringExpense \<Rightarrow> Date \<Rightarrow> Date" where
  "nextDate tz pattern c = getNextDate tz c (rec_interval pattern) (rec_intervalValue pattern)"

definition advances :: "int \<Rightarrow> RecurringExpense \<Rightarrow> bool" where
  "advances tz pattern \<longleftrightarrow> (\<forall>c. c < nextDate tz pattern c)"

definition day_end :: "int \<Rightarrow> Date \<Rightarrow> Date" where
  "day_end tz d = from_local tz (local_ms tz d div 86400000) 86399999"

function occurrences :: "int \<Rightarrow> timestamp \<Rightarrow> Date option \<Rightarrow> RecurringExpense \<Rightarrow> Date \<Rightarrow> Date list" where
  "occurrences tz now endDate pattern c =
     (if due tz now endDate c \<and> c \<le> day_end tz now \<and> c < nextDate tz pattern c
      then c # occurrences tz now endDate pattern (nextDate tz pattern c)
      else [])"
  by pat_completeness auto
termination
  by (relation "measure (\<lambda>(tz, now, endDate, pattern, c). nat (day_end tz now + 1 - c))") auto

declare occurrences.simps [simp del]

definition occurrenceRow :: "RecurringExpense \<Rightarrow> string \<Rightarrow> timestamp \<Rightarrow> Date \<Rightarrow> expense_row" where
  "occurrenceRow pattern uid now c =
     \<lparr>row_id = uid, row_amount = rec_amount pattern,
      row_currency_code = rec_currencyCode pattern, row_category = rec_category pattern,
      row_description = or_null (rec_description pattern), row_notes_encrypted = None,
      row_date = utcDateString c, row_group_id = None, row_paid_by_member_id = None,
      row_created_at = now, row_updated_at = now\<rparr>"

text \<open>The effect of one turn of the loop on the database, and of a list of turns.\<close>

definition recordOccurrence ::
  "RecurringExpense \<Rightarrow> (nat \<Rightarrow> string) \<Rightarrow> timestamp \<Rightarrow> database \<Rightarrow> nat \<times> Date \<Rightarrow> database" where
  "recordOccurrence pattern uuid now d kc =
     markGenerated pattern (snd kc) now
       (INSERT_EXPENSE (occurrenceRow pattern (uuid (fst kc)) now (snd kc)) d)"

definition recordOccurrences ::
  "RecurringExpense \<Rightarrow> (nat \<Rightarrow> string) \<Rightarrow> timestamp \<Rightarrow> nat \<Rightarrow> Date list \<Rightarrow> database \<Rightarrow> database" where
  "recordOccurrences pattern uuid now k cs d =
     foldl (recordOccurrence pattern uuid now) d (zip [k..<k + length cs] cs)"


definition recurring_rules :: "world \<Rightarrow> RecurringExpense list" where
  "recurring_rules w = (case world_db w of None \<Rightarrow> [] | Some d \<Rightarrow> tbl_recurring_expenses d)"


text \<open>
  The end date and the first candidate date of a rule as the planner computes them, the
  occurrences of a rule that a run at \<open>now\<close> materializes, the row of the rule after one
  turn of the loop, and the rule as the table holds it after the run.
\<close>

definition ruleEnd :: "int \<Rightarrow> RecurringExpense \<Rightarrow> Date option" where
  "ruleEnd tz pattern = map_option (parseISO tz) (rec_endDate pattern)"

definition firstDate :: "int \<Rightarrow> RecurringExpense \<Rightarrow> Date" where
  "firstDate tz pattern =
     nextDate tz pattern
       (case rec_lastGenerated pattern of
          None \<Rightarrow> parseISO tz (rec_startDate pattern)
        | Some t \<Rightarrow> parseISO tz t)"

definition ruleOccurrences :: "int \<Rightarrow> timestamp \<Rightarrow> RecurringExpense \<Rightarrow> Date list" where
  "ruleOccurrences tz now pattern =
     (if endedBefore (ruleEnd tz pattern) now then []
      else occurrences tz now (ruleEnd tz pattern) pattern (firstDate tz pattern))"

definition markRule :: "RecurringExpense \<Rightarrow> Date \<Rightarrow> timestamp \<Rightarrow> RecurringExpense \<Rightarrow> RecurringExpense" where
  "markRule pattern c now r =
     (if rec_id r = rec_id pattern
      then r\<lparr>rec_amount := rec_amount pattern, rec_currencyCode := rec_currencyCode pattern,
             rec_category := rec_category pattern,
             rec_description := or_null (rec_description pattern),
             rec_interval := rec_interval pattern,
             rec_intervalValue := rec_intervalValue pattern,
             rec_startDate := rec_startDate pattern, rec_endDate := rec_endDate pattern,
             rec_lastGenerated := Some (Instant c),
             rec_groupId := or_null (rec_groupId pattern), rec_updatedAt := now\<rparr>
      else r)"




text \<open>
  The condition of the specification for materializing an occurrence: the occurrence is
  not after now, and there is no end date or the occurrence is not after the end date.
\<close>

definition spec_due :: "timestamp \<Rightarrow> Date option \<Rightarrow> Date \<Rightarrow> bool" where
  "spec_due now endDate c \<longleftrightarrow>
     c \<le> now \<and> (case endDate of None \<Rightarrow> True | Some e \<Rightarrow> c \<le> e)"

text \<open>
  Observations of a run, and a sequence of runs at the given times; every run draws
  identifiers that follow the ones of the rows already present.
\<close>

definition generated_dates :: "((error + Expense list) \<times> world) option \<Rightarrow> string list option" where
  "generated_dates r =
     (case r of
        Some (Inr g, w) \<Rightarrow> Some (map expense_date g)
      | Some (Inl e, w) \<Rightarrow> None
      | None \<Rightarrow> None)"

definition last_generated_after ::
  "((error + Expense list) \<times> world) option \<Rightarrow> iso_text option list" where
  "last_generated_after r =
     (case r of Some (x, w) \<Rightarrow> map rec_lastGenerated (recurring_rules w) | None \<Rightarrow> [])"




text \<open>
  Example rules. \<open>rent_rule\<close> is the scenario of the specification: monthly from
  2024-01-01, last generated 2024-01-01. \<open>gym_rule\<close> is the same rule with the end date
  2024-03-15, \<open>market_rule\<close> is weekly, and \<open>evening_rule\<close> is daily and was last generated
  on 2024-04-14 at 18:00 UTC. \<open>mid_april\<close> is 2024-04-15 at 12:00 UTC and
  \<open>mid_february\<close> is 2024-02-10 at 12:00 UTC.
\<close>

definition rent_rule :: RecurringExpense where
  "rent_rule = \<lparr>rec_id = ''r1'', rec_amount = 1200, rec_currencyCode = ''USD'',
     rec_category = ''Rent'', rec_description = Some ''Monthly rent'', rec_interval = Monthly,
     rec_intervalValue = 1, rec_startDate = DateOnly 2024 1 1, rec_endDate = None,
     rec_lastGenerated = Some (DateOnly 2024 1 1), rec_groupId = Some ''g'',
     rec_createdAt = 0, rec_updatedAt = 0\<rparr>"

definition gym_rule :: RecurringExpense where
  "gym_rule = rent_rule\<lparr>rec_id := ''r2'', rec_category := ''Gym'',
     rec_endDate := Some (DateOnly 2024 3 15)\<rparr>"

definition market_rule :: RecurringExpense where
  "market_rule = rent_rule\<lparr>rec_id := ''r3'', rec_category := ''Market'',
     rec_interval := Weekly, rec_lastGenerated := Some (DateOnly 2024 4 1)\<rparr>"

definition evening_rule :: RecurringExpense where
  "evening_rule = rent_rule\<lparr>rec_id := ''r4'', rec_category := ''Dinner'',
     rec_interval := Daily, rec_lastGenerated := Some (Instant 1713117600000)\<rparr>"

definition world_with_rules :: "RecurringExpense list \<Rightarrow> world" where
  "world_with_rules rules =
     locked_world\<lparr>world_db := Some (empty_database\<lparr>tbl_recurring_expenses := rules\<rparr>)\<rparr>"

definition mid_april :: timestamp where
  "mid_april = 1713182400000"

definition mid_february :: timestamp where
  "mid_february = 1707566400000"






section \<open>Properties of the split engine\<close>

lemma insertEqualSplits_rows:
  "tbl_expense_splits (insertEqualSplits uuid now e a k ms d) =
     tbl_expense_splits d @
     map (\<lambda>(j, m). \<lparr>split_id = uuid j, split_expenseId = e, split_memberId = m,
            split_amount = a, split_percentage = None, split_createdAt = now\<rparr>)
         (zip [k..<k + length ms] ms)"
proof (induction ms arbitrary: k d)
  case Nil
  then show ?case by simp
next
  case (Cons m ms)
  have "[k..<k + length (m # ms)] = k # [Suc k..<Suc k + length ms]"
    by (simp add: upt_rec)
  then show ?case using Cons.IH[of "Suc k"]
    by (simp add: INSERT_SPLIT_def)
qed

lemma insertPercentageSplits_rows:
  "tbl_expense_splits (insertPercentageSplits uuid now e totalAmount k ss d) =
     tbl_expense_splits d @
     map (\<lambda>(j, m, p). \<lparr>split_id = uuid j, split_expenseId = e, split_memberId = m,
            split_amount = (totalAmount * p) / 100, split_percentage = Some p,
            split_createdAt = now\<rparr>)
         (zip [k..<k + length ss] ss)"
proof (induction ss arbitrary: k d)
  case Nil
  then show ?case by simp
next
  case (Cons s ss)
  obtain m p where s: "s = (m, p)" by (cases s)
  have "[k..<k + length (s # ss)] = k # [Suc k..<Suc k + length ss]"
    by (simp add: upt_rec)
  then show ?case using Cons.IH[of "Suc k"]
    by (simp add: INSERT_SPLIT_def s)
qed

lemma insertAmountSplits_rows:
  "tbl_expense_splits (insertAmountSplits uuid now e k ss d) =
     tbl_expense_splits d @
     map (\<lambda>(j, m, a). \<lparr>split_id = uuid j, split_expenseId = e, split_memberId = m,
            split_amount = a, split_percentage = None, split_createdAt = now\<rparr>)
         (zip [k..<k + length ss] ss)"
proof (induction ss arbitrary: k d)
  case Nil
  then show ?case by simp
next
  case (Cons s ss)
  obtain m a where s: "s = (m, a)" by (cases s)
  have "[k..<k + length (s # ss)] = k # [Suc k..<Suc k + length ss]"
    by (simp add: upt_rec)
  then show ?case using Cons.IH[of "Suc k"]
    by (simp add: INSERT_SPLIT_def s)
qed

lemma get_splits_eq:
  "GET_SPLITS_BY_EXPENSE e d = filter (\<lambda>r. split_expenseId r = e) (tbl_expense_splits d)"
  by (simp add: GET_SPLITS_BY_EXPENSE_def)

lemma filter_no_expense:
  "filter (\<lambda>r. split_expenseId r = e) (filter (\<lambda>r. split_expenseId r \<noteq> e) xs) = []"
  by (induction xs) auto

lemma zip_index_drop: "length js = length xs \<Longrightarrow> map (\<lambda>(j, x). f x) (zip js xs) = map f xs"
  by (induction js xs rule: list_induct2) auto

lemma zip_index_drop2:
  "length js = length xs \<Longrightarrow>
   map (\<lambda>(j, m, p). f m p) (zip js xs) = map (\<lambda>(m, p). f m p) xs"
  by (induction js xs rule: list_induct2) auto

text \<open>
  C2 (as amended). With an open database and a non-empty member list,
  \<open>splitExpenseEqually\<close> replaces the splits of the expense by one split per member, in
  input order, each with the same amount \<open>totalAmount / N\<close>; in exact arithmetic these
  amounts add up to \<open>totalAmount\<close>. The code works on amounts in major units, not on
  integer minor units, and gives no remainder to the first members.
\<close>

theorem splitExpenseEqually_shares:
  assumes "memberIds \<noteq> []"
  shows "\<exists>d'. splitExpenseEqually uuid now (Some d) e memberIds totalAmount = Inr d' \<and>
     map split_memberId (GET_SPLITS_BY_EXPENSE e d') = memberIds \<and>
     map split_amount (GET_SPLITS_BY_EXPENSE e d') =
       replicate (length memberIds) (totalAmount / of_nat (length memberIds)) \<and>
     sum_list (map split_amount (GET_SPLITS_BY_EXPENSE e d')) = totalAmount"
proof -
  let ?a = "totalAmount / of_nat (length memberIds)"
  let ?d' = "insertEqualSplits uuid now e ?a 0 memberIds (DELETE_SPLITS_BY_EXPENSE e d)"
  let ?row = "\<lambda>(j, m). \<lparr>split_id = uuid j, split_expenseId = e, split_memberId = m,
            split_amount = ?a, split_percentage = None, split_createdAt = now\<rparr>"
  have len: "length [0..<0 + length memberIds] = length memberIds" by simp
  have rows: "GET_SPLITS_BY_EXPENSE e ?d' = map ?row (zip [0..<0 + length memberIds] memberIds)"
    by (simp add: get_splits_eq insertEqualSplits_rows DELETE_SPLITS_BY_EXPENSE_def
        filter_no_expense filter_map o_def split_def)
  have ids: "map split_memberId (GET_SPLITS_BY_EXPENSE e ?d') = memberIds"
    unfolding rows using zip_index_drop[OF len, of "\<lambda>m. m"]
    by (simp add: o_def split_def)
  have amts: "map split_amount (GET_SPLITS_BY_EXPENSE e ?d') = replicate (length memberIds) ?a"
    unfolding rows using zip_index_drop[OF len, of "\<lambda>m. ?a"]
    by (simp add: o_def split_def map_replicate_const)
  have n: "(of_nat (length memberIds) :: rat) \<noteq> 0" using assms by simp
  have "sum_list (replicate (length memberIds) ?a) = of_nat (length memberIds) * ?a"
    by (simp add: sum_list_replicate)
  also have "\<dots> = totalAmount" using n by simp
  finally have sum: "sum_list (map split_amount (GET_SPLITS_BY_EXPENSE e ?d')) = totalAmount"
    using amts by simp
  show ?thesis
    using ids amts sum by (simp add: splitExpenseEqually_def getDatabase_def Let_def)
qed

theorem splitExpenseEqually_shares_witness:
  "[''a'', ''b'', ''c''] \<noteq> [] \<and>
   (\<exists>d'. splitExpenseEqually sample_uuid 0 (Some empty_database) ''e'' [''a'', ''b'', ''c''] 100
            = Inr d' \<and>
     map split_memberId (GET_SPLITS_BY_EXPENSE ''e'' d') = [''a'', ''b'', ''c''] \<and>
     map split_amount (GET_SPLITS_BY_EXPENSE ''e'' d') = [100 / 3, 100 / 3, 100 / 3] \<and>
     sum_list (map split_amount (GET_SPLITS_BY_EXPENSE ''e'' d')) = 100)"
  using splitExpenseEqually_shares[of "[''a'', ''b'', ''c'']" sample_uuid 0 empty_database
      "''e''" 100]
  by (simp add: numeral_3_eq_3)

text \<open>
  C2 as stated fails: 100 split among three members gives three shares of 100/3. The
  specification's split is 34, 33, 33 when 100 is read in minor units, and 33.34, 33.33,
  33.33 when it is read in major units.
\<close>

theorem splitExpenseEqually_remainder_counterexample:
  "split_amounts ''e'' (splitExpenseEqually sample_uuid 0 (Some empty_database) ''e''
       [''a'', ''b'', ''c''] 100) = Inr [100 / 3, 100 / 3, 100 / 3] \<and>
   split_amounts ''e'' (splitExpenseEqually sample_uuid 0 (Some empty_database) ''e''
       [''a'', ''b'', ''c''] 100) \<noteq> Inr (map of_int (spec_equal_split 100 3)) \<and>
   split_amounts ''e'' (splitExpenseEqually sample_uuid 0 (Some empty_database) ''e''
       [''a'', ''b'', ''c''] 100) \<noteq> Inr (minor_units (spec_equal_split 10000 3))"
  by (simp add: split_amounts_def splitExpenseEqually_def getDatabase_def Let_def
      DELETE_SPLITS_BY_EXPENSE_def INSERT_SPLIT_def GET_SPLITS_BY_EXPENSE_def
      empty_database_def spec_equal_split_def minor_units_def upt_rec)

text \<open>
  C3 (as amended). \<open>splitExpenseByPercentage\<close> and \<open>splitExpenseByAmount\<close> check nothing:
  with an open database they succeed for every input, and replace the splits of the
  expense by one split per supplied entry, with amount \<open>totalAmount * percentage / 100\<close>
  and the supplied amount. Their only failure is the unopened database.
\<close>

theorem split_services_do_not_validate:
  "(\<exists>d'. splitExpenseByPercentage uuid now (Some d) e splits totalAmount = Inr d' \<and>
      map (\<lambda>r. (split_memberId r, split_amount r, split_percentage r))
          (GET_SPLITS_BY_EXPENSE e d') =
        map (\<lambda>(m, p). (m, (totalAmount * p) / 100, Some p)) splits) \<and>
   (\<exists>d'. splitExpenseByAmount uuid now (Some d) e amounts = Inr d' \<and>
      map (\<lambda>r. (split_memberId r, split_amount r, split_percentage r))
          (GET_SPLITS_BY_EXPENSE e d') =
        map (\<lambda>(m, a). (m, a, None)) amounts) \<and>
   splitExpenseByPercentage uuid now None e splits totalAmount = Inl DatabaseNotInitialized \<and>
   splitExpenseByAmount uuid now None e amounts = Inl DatabaseNotInitialized"
proof -
  have l1: "length [0..<0 + length splits] = length splits" by simp
  have l2: "length [0..<0 + length amounts] = length amounts" by simp
  have p: "map (\<lambda>r. (split_memberId r, split_amount r, split_percentage r))
      (GET_SPLITS_BY_EXPENSE e (insertPercentageSplits uuid now e totalAmount 0 splits
         (DELETE_SPLITS_BY_EXPENSE e d))) =
      map (\<lambda>(m, p). (m, (totalAmount * p) / 100, Some p)) splits"
    using zip_index_drop2[OF l1, of "\<lambda>m p. (m, (totalAmount * p) / 100, Some p)"]
    by (simp add: get_splits_eq insertPercentageSplits_rows DELETE_SPLITS_BY_EXPENSE_def
        filter_no_expense filter_map o_def split_def)
  have a: "map (\<lambda>r. (split_memberId r, split_amount r, split_percentage r))
      (GET_SPLITS_BY_EXPENSE e (insertAmountSplits uuid now e 0 amounts
         (DELETE_SPLITS_BY_EXPENSE e d))) =
      map (\<lambda>(m, a). (m, a, None)) amounts"
    using zip_index_drop2[OF l2, of "\<lambda>m a. (m, a, None)"]
    by (simp add: get_splits_eq insertAmountSplits_rows DELETE_SPLITS_BY_EXPENSE_def
        filter_no_expense filter_map o_def split_def)
  show ?thesis
    using p a by (simp add: splitExpenseByPercentage_def splitExpenseByAmount_def getDatabase_def)
qed

text \<open>
  C3 as stated fails: percentages 50 and 30 do not add up to 100, amounts 50 and 30 do not
  add up to an expense of 100, and both calls succeed and persist the two splits.
\<close>

theorem split_validation_counterexample:
  "\<not> spec_within_tolerance (sum_list [50, 30]) 100 \<and>
   split_amounts ''e'' (splitExpenseByPercentage sample_uuid 0 (Some empty_database) ''e''
       [(''a'', 50), (''b'', 30)] 100) = Inr [50, 30] \<and>
   split_amounts ''e'' (splitExpenseByAmount sample_uuid 0 (Some empty_database) ''e''
       [(''a'', 50), (''b'', 30)]) = Inr [50, 30]"
  by (simp add: split_amounts_def splitExpenseByPercentage_def splitExpenseByAmount_def
      getDatabase_def DELETE_SPLITS_BY_EXPENSE_def INSERT_SPLIT_def GET_SPLITS_BY_EXPENSE_def
      empty_database_def spec_within_tolerance_def)

section \<open>Properties of the balance calculator\<close>

lemma sum_balances_update:
  "sum_balances (AList.update k v b) = sum_balances b - balance_or_zero b k + v"
  by (induction b) (auto simp: sum_balances_def balance_or_zero_def)

lemma keys_update: "fst ` set (AList.update k v b) = insert k (fst ` set b)"
  by (induction b) auto

lemma sum_debitSplit: "sum_balances (debitSplit b s) = sum_balances b - split_amount s"
  by (simp add: debitSplit_def sum_balances_update)

lemma keys_debitSplit: "fst ` set (debitSplit b s) = insert (split_memberId s) (fst ` set b)"
  by (simp add: debitSplit_def keys_update)

lemma sum_foldl_debitSplit:
  "sum_balances (foldl debitSplit b ss) = sum_balances b - sum_list (map split_amount ss)"
  by (induction ss arbitrary: b) (simp_all add: sum_debitSplit)

lemma keys_foldl_debitSplit:
  "fst ` set (foldl debitSplit b ss) = fst ` set b \<union> split_memberId ` set ss"
  by (induction ss arbitrary: b) (auto simp: keys_debitSplit)

lemma sum_creditPayer:
  "expense_paidByMemberId e = Some p \<Longrightarrow> p \<noteq> [] \<Longrightarrow> p \<in> fst ` set b \<Longrightarrow>
   sum_balances (creditPayer b e) = sum_balances b + expense_amount e"
  by (simp add: creditPayer_def sum_balances_update map_of_eq_None_iff)

lemma keys_creditPayer: "fst ` set (creditPayer b e) = fst ` set b"
  by (auto simp: creditPayer_def keys_update map_of_eq_None_iff split: option.splits)

lemma sum_applyPayment: "sum_balances (applyPayment b p) = sum_balances b"
  by (simp add: applyPayment_def Let_def sum_balances_update)

lemma sum_foldl_applyPayment: "sum_balances (foldl applyPayment b ps) = sum_balances b"
  by (induction ps arbitrary: b) (simp_all add: sum_applyPayment)

lemma keys_applyExpense: "fst ` set b \<subseteq> fst ` set (applyExpense fs g b e)"
  by (auto simp: applyExpense_def keys_foldl_debitSplit keys_creditPayer)

lemma sum_applyExpense:
  "expense_paidByMemberId e = Some p \<Longrightarrow> p \<noteq> [] \<Longrightarrow> p \<in> fst ` set b \<Longrightarrow>
   sum_list (map split_amount (getExpenseSplits fs g (expense_id e))) = expense_amount e \<Longrightarrow>
   sum_balances (applyExpense fs g b e) = sum_balances b"
  by (simp add: applyExpense_def sum_foldl_debitSplit sum_creditPayer)

lemma sum_foldl_applyExpense:
  "\<forall>e \<in> set es. settled_expense fs g M e \<Longrightarrow> M \<subseteq> fst ` set b \<Longrightarrow>
   sum_balances (foldl (applyExpense fs g) b es) = sum_balances b"
proof (induction es arbitrary: b)
  case Nil
  then show ?case by simp
next
  case (Cons e es)
  from Cons.prems obtain p where p: "expense_paidByMemberId e = Some p" "p \<noteq> []" "p \<in> M"
    and s: "sum_list (map split_amount (getExpenseSplits fs g (expense_id e))) = expense_amount e"
    by (auto simp: settled_expense_def split: option.splits)
  have "sum_balances (applyExpense fs g b e) = sum_balances b"
    using p s Cons.prems(2) by (intro sum_applyExpense[of e p]) auto
  moreover have "M \<subseteq> fst ` set (applyExpense fs g b e)"
    using Cons.prems(2) keys_applyExpense[of b fs g e] by blast
  ultimately show ?case using Cons.IH[of "applyExpense fs g b e"] Cons.prems(1) by simp
qed

lemma keys_foldl_initBalance:
  "fst ` set (foldl initBalance b ms) = fst ` set b \<union> member_id ` set ms"
  by (induction ms arbitrary: b) (auto simp: initBalance_def keys_update)

lemma zeros_update:
  "snd ` set b \<subseteq> {0} \<Longrightarrow> snd ` set (AList.update k (0::rat) b) \<subseteq> {0}"
  by (induction b) auto

lemma zeros_foldl_initBalance:
  "snd ` set b \<subseteq> {0} \<Longrightarrow> snd ` set (foldl initBalance b ms) \<subseteq> {0}"
  by (induction ms arbitrary: b) (simp_all add: initBalance_def zeros_update)

lemma zeros_sum: "snd ` set b \<subseteq> {0} \<Longrightarrow> sum_balances b = 0"
  by (induction b) (auto simp: sum_balances_def)

lemmas example_defs = dinner_group_def dinner_members_def dinner_expenses_def dinner_splits_def
  departed_payer_group_def departed_payer_members_def departed_payer_expenses_def
  departed_payer_splits_def mk_member_def mk_split_def mk_expense_def empty_database_def

lemmas balance_defs = calculateGroupBalances_def getPaymentsByGroup_def getDatabase_def
  GET_PAYMENTS_BY_GROUP_def initBalance_def applyExpense_def creditPayer_def debitSplit_def
  applyPayment_def balance_or_zero_def

text \<open>
  C1 (as amended). When every expense of the group is paid by a member of the group and
  the amounts of its splits add up to its amount, the balances returned by
  \<open>calculateGroupBalances\<close> add up to zero, whatever payments are recorded. The
  arithmetic is exact, so the sum is zero and not only near zero.
\<close>

theorem calculateGroupBalances_sum_zero:
  assumes "\<forall>e \<in> set (getGroupExpenses fs g).
             settled_expense fs g (member_id ` set (getGroupMembers fs g)) e"
  shows "\<exists>b. calculateGroupBalances fs (Some d) g = Inr b \<and> sum_balances b = 0"
proof -
  let ?b0 = "foldl initBalance [] (getGroupMembers fs g)"
  have k: "member_id ` set (getGroupMembers fs g) \<subseteq> fst ` set ?b0"
    by (simp add: keys_foldl_initBalance)
  have z: "sum_balances ?b0 = 0"
    by (intro zeros_sum zeros_foldl_initBalance) simp
  have "sum_balances (foldl (applyExpense fs g) ?b0 (getGroupExpenses fs g)) = 0"
    using sum_foldl_applyExpense[OF assms k] z by simp
  then show ?thesis
    by (simp add: calculateGroupBalances_def getPaymentsByGroup_def getDatabase_def
        sum_foldl_applyPayment)
qed

theorem calculateGroupBalances_sum_zero_witness:
  "list_all
     (settled_expense dinner_group ''g'' (member_id ` set (getGroupMembers dinner_group ''g'')))
     (getGroupExpenses dinner_group ''g'') \<and>
   (\<exists>b. calculateGroupBalances dinner_group (Some empty_database) ''g'' = Inr b \<and>
        sum_balances b = 0) \<and>
   calculateGroupBalances dinner_group (Some empty_database) ''g'' =
     Inr [(''A'', 60), (''B'', - 30), (''C'', - 30)]"
proof -
  have h: "\<forall>e \<in> set (getGroupExpenses dinner_group ''g'').
      settled_expense dinner_group ''g'' (member_id ` set (getGroupMembers dinner_group ''g'')) e"
    by (simp add: example_defs settled_expense_def)
  have v: "calculateGroupBalances dinner_group (Some empty_database) ''g'' =
     Inr [(''A'', 60), (''B'', - 30), (''C'', - 30)]"
    by (simp add: balance_defs example_defs)
  show ?thesis
    using h v calculateGroupBalances_sum_zero[OF h, of empty_database]
    by (simp add: list_all_iff)
qed

text \<open>
  C1 as stated fails: an expense of 90 whose payer is no longer a member of the group
  credits nobody, its two splits of 45 are debited, and the balances add up to -90.
\<close>

theorem calculateGroupBalances_sum_counterexample:
  "calculateGroupBalances departed_payer_group (Some empty_database) ''g'' =
     Inr [(''A'', - 45), (''B'', - 45)] \<and>
   sum_balances [(''A'', - 45), (''B'', - 45)] = - 90 \<and>
   \<not> spec_within_tolerance (sum_balances [(''A'', - 45), (''B'', - 45)]) 0"
  by (simp add: balance_defs example_defs sum_balances_def spec_within_tolerance_def)

section \<open>Properties of the settlement optimizer\<close>

lemma classify_foldl:
  "foldl (classifyMember b) acc ms = (fst acc @ creditorsOf b ms, snd acc @ debtorsOf b ms)"
proof (induction ms arbitrary: acc)
  case Nil
  then show ?case by (simp add: creditorsOf_def debtorsOf_def)
next
  case (Cons m ms)
  show ?case
    unfolding foldl_Cons Cons.IH
    by (simp add: classifyMember_def Let_def creditorsOf_def debtorsOf_def)
qed

lemma settle_Nil1: "settle [] ds = []"
  by (simp add: settle.simps)

lemma settle_Nil2: "settle cs [] = []"
  by (cases cs) (simp_all add: settle.simps)

lemma settle_small:
  "party_amount c < 1 / 100 \<or> party_amount d < 1 / 100 \<Longrightarrow> settle (c # cs) (d # ds) = []"
  by (simp add: settle.simps)

lemma drop_upd: "i < length xs \<Longrightarrow> drop i (xs[i := y]) = y # drop (Suc i) xs"
  by (simp add: upd_conv_take_nth_drop)

lemma settleLoop_stop:
  "\<not> (ci < length cs \<and> di < length ds) \<Longrightarrow> settleLoop cs ds ci di acc = acc"
  by (subst settleLoop.simps) auto

lemma settleLoop_small:
  "ci < length cs \<and> di < length ds \<Longrightarrow>
   party_amount (cs ! ci) < 1 / 100 \<or> party_amount (ds ! di) < 1 / 100 \<Longrightarrow>
   settleLoop cs ds ci di acc = acc"
  by (subst settleLoop.simps) (auto simp: Let_def)

lemma settleLoop_step:
  assumes "ci < length cs \<and> di < length ds"
    and "\<not> (party_amount (cs ! ci) < 1 / 100 \<or> party_amount (ds ! di) < 1 / 100)"
    and "s = min (party_amount (cs ! ci)) (party_amount (ds ! di))"
    and "c' = (cs ! ci)\<lparr>party_amount := party_amount (cs ! ci) - s\<rparr>"
    and "d' = (ds ! di)\<lparr>party_amount := party_amount (ds ! di) - s\<rparr>"
  shows "settleLoop cs ds ci di acc =
     settleLoop (cs[ci := c']) (ds[di := d'])
       (if party_amount c' < 1 / 100 then ci + 1 else ci)
       (if party_amount d' < 1 / 100 then di + 1 else di)
       (acc @ [\<lparr>sug_from = party_memberId (ds ! di), sug_to = party_memberId (cs ! ci),
          sug_amount = round2 s\<rparr>])"
  using assms(1,2) unfolding assms(3,4,5)
  by (subst settleLoop.simps) (simp add: Let_def)

lemma settle_step:
  assumes "\<not> (party_amount c < 1 / 100 \<or> party_amount d < 1 / 100)"
    and "s = min (party_amount c) (party_amount d)"
    and "c' = c\<lparr>party_amount := party_amount c - s\<rparr>"
    and "d' = d\<lparr>party_amount := party_amount d - s\<rparr>"
  shows "settle (c # cs) (d # ds) =
     \<lparr>sug_from = party_memberId d, sug_to = party_memberId c, sug_amount = round2 s\<rparr> #
     settle (if party_amount c - s < 1 / 100 then cs else c' # cs)
            (if party_amount d - s < 1 / 100 then ds else d' # ds)"
  unfolding assms(2,3,4) by (subst settle.simps) (simp only: assms(1) if_False)

lemma settleLoop_settle:
  "settleLoop cs ds ci di acc = acc @ settle (drop ci cs) (drop di ds)"
proof (induction cs ds ci di acc rule: settleLoop.induct)
  case (1 cs ds ci di acc)
  show ?case
  proof (cases "ci < length cs \<and> di < length ds")
    case False
    then have "drop ci cs = [] \<or> drop di ds = []" by auto
    then have "settle (drop ci cs) (drop di ds) = []"
      by (auto simp: settle_Nil1 settle_Nil2)
    with False show ?thesis by (simp add: settleLoop_stop)
  next
    case True
    define c d where "c = cs ! ci" and "d = ds ! di"
    have dc: "drop ci cs = c # drop (Suc ci) cs" and dd: "drop di ds = d # drop (Suc di) ds"
      using True by (simp_all add: Cons_nth_drop_Suc c_def d_def)
    show ?thesis
    proof (cases "party_amount c < 1 / 100 \<or> party_amount d < 1 / 100")
      case small: True
      then have "settleLoop cs ds ci di acc = acc"
        using True settleLoop_small[of ci cs di ds acc] by (simp add: c_def d_def)
      moreover have "settle (c # drop (Suc ci) cs) (d # drop (Suc di) ds) = []"
        using small by (rule settle_small)
      ultimately show ?thesis by (simp add: dc dd)
    next
      case big: False
      define s where "s = min (party_amount c) (party_amount d)"
      define c' where "c' = c\<lparr>party_amount := party_amount c - s\<rparr>"
      define d' where "d' = d\<lparr>party_amount := party_amount d - s\<rparr>"
      define ci' where "ci' = (if party_amount c' < 1 / 100 then ci + 1 else ci)"
      define di' where "di' = (if party_amount d' < 1 / 100 then di + 1 else di)"
      define sug where "sug = \<lparr>sug_from = party_memberId d, sug_to = party_memberId c,
          sug_amount = round2 s\<rparr>"
      have ih: "settleLoop (cs[ci := c']) (ds[di := d']) ci' di' (acc @ [sug]) =
          (acc @ [sug]) @ settle (drop ci' (cs[ci := c'])) (drop di' (ds[di := d']))"
        unfolding ci'_def di'_def sug_def c'_def d'_def s_def c_def d_def
        by (rule "1.IH"[OF True refl refl _ refl refl refl refl])
           (use big in \<open>simp add: c_def d_def\<close>)
      have pc: "party_amount c' = party_amount c - s" and pd: "party_amount d' = party_amount d - s"
        by (simp_all add: c'_def d'_def)
      have e1: "drop ci' (cs[ci := c']) =
          (if party_amount c - s < 1 / 100 then drop (Suc ci) cs else c' # drop (Suc ci) cs)"
        using True unfolding ci'_def pc by (simp add: drop_upd)
      have e2: "drop di' (ds[di := d']) =
          (if party_amount d - s < 1 / 100 then drop (Suc di) ds else d' # drop (Suc di) ds)"
        using True unfolding di'_def pd by (simp add: drop_upd)
      have "settleLoop cs ds ci di acc =
          settleLoop (cs[ci := c']) (ds[di := d']) ci' di' (acc @ [sug])"
        unfolding ci'_def di'_def sug_def c_def d_def
        by (rule settleLoop_step[OF True big[unfolded c_def d_def] s_def[unfolded c_def d_def]
              c'_def[unfolded c_def] d'_def[unfolded d_def]])
      also have "\<dots> = acc @ sug # settle (drop ci' (cs[ci := c'])) (drop di' (ds[di := d']))"
        unfolding ih by simp
      also have "sug # settle (drop ci' (cs[ci := c'])) (drop di' (ds[di := d'])) =
          settle (c # drop (Suc ci) cs) (d # drop (Suc di) ds)"
        unfolding e1 e2 sug_def
        by (rule settle_step[OF big s_def c'_def d'_def, symmetric])
      finally show ?thesis by (simp add: dc dd)
    qed
  qed
qed


lemma whole_cents_iff: "whole_cents x \<longleftrightarrow> (\<exists>n::int. x = of_int n / 100)"
proof
  assume "whole_cents x"
  then have "x = of_int \<lfloor>x * 100\<rfloor> / 100" by (simp add: whole_cents_def)
  then show "\<exists>n::int. x = of_int n / 100" by blast
next
  assume "\<exists>n::int. x = of_int n / 100"
  then obtain n :: int where "x = of_int n / 100" by blast
  then show "whole_cents x" by (simp add: whole_cents_def)
qed





lemma round2_whole_cents: "whole_cents x \<Longrightarrow> round2 x = x"
proof -
  assume "whole_cents x"
  then obtain n :: int where n: "x = of_int n / 100" by (auto simp: whole_cents_iff)
  have "\<lfloor>(of_int n :: rat) + 1 / 2\<rfloor> = n" by linarith
  then show ?thesis by (simp add: round2_def Math_round_def n)
qed

lemma whole_cents_abs: "whole_cents x \<Longrightarrow> whole_cents \<bar>x\<bar>"
proof -
  assume "whole_cents x"
  then obtain n :: int where n: "x = of_int n / 100" by (auto simp: whole_cents_iff)
  then have "\<bar>x\<bar> = of_int \<bar>n\<bar> / 100" by simp
  then show ?thesis unfolding whole_cents_iff by blast
qed


















lemma settlementSuggestions_settle:
  "settlementSuggestions b members =
     settle (sortByAmountDesc (creditorsOf b members)) (sortByAmountDesc (debtorsOf b members))"
  by (simp add: settlementSuggestions_def Let_def classify_foldl settleLoop_settle)











lemma round2_30: "round2 30 = 30"
  by (rule round2_whole_cents) (simp add: whole_cents_def)

lemmas settlement_defs = settlementSuggestions_settle sortByAmountDesc_def creditorsOf_def
  debtorsOf_def balance_or_zero_def round2_30





text \<open>
  C9 (as amended). \<open>getSettlementSuggestions\<close> runs the greedy loop on the creditors and
  the debtors of the member list, each sorted by decreasing amount with a stable sort:
  parties of equal amount stay in the order of the member list. No member identifier
  takes part in the order.
\<close>

theorem settlement_order_stable:
  "settlementSuggestions b members =
     settleLoop (sortByAmountDesc (creditorsOf b members))
       (sortByAmountDesc (debtorsOf b members)) 0 0 [] \<and>
   sorted_wrt (\<lambda>p q. party_amount p \<ge> party_amount q) (sortByAmountDesc ps) \<and>
   (\<forall>a. filter (\<lambda>p. party_amount p = a) (sortByAmountDesc ps) =
        filter (\<lambda>p. party_amount p = a) ps)"
proof -
  have 1: "settlementSuggestions b members =
     settleLoop (sortByAmountDesc (creditorsOf b members))
       (sortByAmountDesc (debtorsOf b members)) 0 0 []"
    by (simp add: settlementSuggestions_def Let_def classify_foldl)
  have "sorted (map (\<lambda>p. - party_amount p) (sortByAmountDesc ps))"
    by (simp add: sortByAmountDesc_def)
  then have 2: "sorted_wrt (\<lambda>p q. party_amount p \<ge> party_amount q) (sortByAmountDesc ps)"
    by (simp add: sorted_map)
  have 3: "filter (\<lambda>p. party_amount p = a) (sortByAmountDesc ps) =
        filter (\<lambda>p. party_amount p = a) ps" for a
    using sort_key_stable[of "\<lambda>p. - party_amount p" "- a" ps]
    by (simp add: sortByAmountDesc_def)
  show ?thesis using 1 2 3 by blast
qed

text \<open>
  C9 as stated fails: with the same balances (A +60, B -30, C -30), the member order A, B, C
  gives the suggestions B to A, C to A, and the member order A, C, B gives C to A, B to A.
\<close>

theorem settlement_order_counterexample:
  "settlementSuggestions dinner_balances
      [mk_member ''g'' ''A'', mk_member ''g'' ''B'', mk_member ''g'' ''C''] =
     [\<lparr>sug_from = ''B'', sug_to = ''A'', sug_amount = 30\<rparr>,
      \<lparr>sug_from = ''C'', sug_to = ''A'', sug_amount = 30\<rparr>] \<and>
   settlementSuggestions dinner_balances
      [mk_member ''g'' ''A'', mk_member ''g'' ''C'', mk_member ''g'' ''B''] =
     [\<lparr>sug_from = ''C'', sug_to = ''A'', sug_amount = 30\<rparr>,
      \<lparr>sug_from = ''B'', sug_to = ''A'', sug_amount = 30\<rparr>]"
  by (simp add: settlement_defs dinner_balances_def mk_member_def settle.simps)

section \<open>Properties of the secret box\<close>





section \<open>Properties of the recurrence planner\<close>

lemma createExpense_plain:
  "expense_notes e = None \<Longrightarrow> world_db w = Some d \<Longrightarrow>
   createExpense sod rnd uid now e w =
     (Inr (e\<lparr>expense_id := uid, expense_createdAt := now, expense_updatedAt := now\<rparr>),
      w\<lparr>world_db := Some (INSERT_EXPENSE
         \<lparr>row_id = uid, row_amount = expense_amount e,
           row_currency_code = expense_currencyCode e, row_category = expense_category e,
           row_description = or_null (expense_description e), row_notes_encrypted = None,
           row_date = expense_date e, row_group_id = None, row_paid_by_member_id = None,
           row_created_at = now, row_updated_at = now\<rparr> d)\<rparr>)"
  by (simp add: createExpense_def getDatabase_def encryptNotes_def)

lemma createExpense_occurrence:
  "world_db w = Some d \<Longrightarrow>
   createExpense sod rnd uid now (occurrenceExpense p c) w =
     (Inr ((occurrenceExpense p c)\<lparr>expense_id := uid, expense_createdAt := now,
             expense_updatedAt := now\<rparr>),
      w\<lparr>world_db := Some (INSERT_EXPENSE (occurrenceRow p uid now c) d)\<rparr>)"
  by (simp add: createExpense_plain occurrenceExpense_def occurrenceRow_def)

lemma generateOccurrences_stop:
  "\<not> due tz now endDate c \<Longrightarrow>
   generateOccurrences sod rnd uuid tz now p endDate c w g = Some (Inr g, w)"
  by (subst generateOccurrences.simps) (auto simp: due_def)

lemma generateOccurrences_step:
  "due tz now endDate c \<Longrightarrow> world_db w = Some d \<Longrightarrow>
   generateOccurrences sod rnd uuid tz now p endDate c w g =
     generateOccurrences sod rnd uuid tz now p endDate (nextDate tz p c)
       (w\<lparr>world_db := Some (recordOccurrence p uuid now d (length g, c))\<rparr>)
       (g @ [occurrenceExpense p c])"
  by (subst generateOccurrences.simps)
     (auto simp: due_def createExpense_occurrence getDatabase_def nextDate_def
        recordOccurrence_def)

lemma le_day_end_self: "x \<le> day_end tz x"
proof -
  define l where "l = local_ms tz x"
  have "l = l div 86400000 * 86400000 + l mod 86400000" by simp
  moreover have "l mod 86400000 < 86400000" by simp
  ultimately have "l \<le> l div 86400000 * 86400000 + 86399999" by linarith
  then show ?thesis by (simp add: day_end_def from_local_def l_def local_ms_def)
qed

lemma sameLocalDay_day_end: "sameLocalDay tz c x \<Longrightarrow> day_end tz c = day_end tz x"
  by (simp add: sameLocalDay_def day_end_def)

lemma due_le_day_end: "due tz now endDate c \<Longrightarrow> c \<le> day_end tz now"
proof -
  assume "due tz now endDate c"
  then consider "c < now" | "sameLocalDay tz c now" by (auto simp: due_def isBefore_def)
  then show ?thesis
  proof cases
    case 1
    then show ?thesis using le_day_end_self[of now tz] by linarith
  next
    case 2
    then show ?thesis using le_day_end_self[of c tz] sameLocalDay_day_end by simp
  qed
qed

lemma occurrences_due:
  "advances tz p \<Longrightarrow> due tz now endDate c \<Longrightarrow>
   occurrences tz now endDate p c = c # occurrences tz now endDate p (nextDate tz p c)"
  by (subst occurrences.simps) (simp add: due_le_day_end advances_def)

lemma occurrences_not_due:
  "\<not> due tz now endDate c \<Longrightarrow> occurrences tz now endDate p c = []"
  by (subst occurrences.simps) simp

lemma recordOccurrences_Nil: "recordOccurrences p uuid now k [] d = d"
  by (simp add: recordOccurrences_def)

lemma recordOccurrences_Cons:
  "recordOccurrences p uuid now k (c # cs) d =
     recordOccurrences p uuid now (Suc k) cs (recordOccurrence p uuid now d (k, c))"
  by (simp add: recordOccurrences_def upt_rec)

lemma generateOccurrences_total:
  assumes "advances tz p" and "world_db w = Some d"
  shows "generateOccurrences sod rnd uuid tz now p endDate c w g =
     Some (Inr (g @ map (occurrenceExpense p) (occurrences tz now endDate p c)),
           w\<lparr>world_db := Some (recordOccurrences p uuid now (length g)
                 (occurrences tz now endDate p c) d)\<rparr>)"
  using assms
proof (induction tz now endDate p c arbitrary: w g d rule: occurrences.induct)
  case (1 tz now endDate p c)
  show ?case
  proof (cases "due tz now endDate c")
    case False
    then show ?thesis using "1.prems"
      by (simp add: generateOccurrences_stop occurrences_not_due recordOccurrences_Nil)
  next
    case True
    define w' where "w' = w\<lparr>world_db := Some (recordOccurrence p uuid now d (length g, c))\<rparr>"
    have guard: "due tz now endDate c \<and> c \<le> day_end tz now \<and> c < nextDate tz p c"
      using True "1.prems"(1) by (simp add: due_le_day_end advances_def)
    have db': "world_db w' = Some (recordOccurrence p uuid now d (length g, c))"
      by (simp add: w'_def)
    have ih: "generateOccurrences sod rnd uuid tz now p endDate (nextDate tz p c) w'
          (g @ [occurrenceExpense p c]) =
        Some (Inr ((g @ [occurrenceExpense p c]) @
                 map (occurrenceExpense p) (occurrences tz now endDate p (nextDate tz p c))),
              w'\<lparr>world_db := Some (recordOccurrences p uuid now
                 (length (g @ [occurrenceExpense p c]))
                 (occurrences tz now endDate p (nextDate tz p c))
                 (recordOccurrence p uuid now d (length g, c)))\<rparr>)"
      by (rule "1.IH"[OF guard "1.prems"(1) db'])
    have "generateOccurrences sod rnd uuid tz now p endDate c w g =
        generateOccurrences sod rnd uuid tz now p endDate (nextDate tz p c) w'
          (g @ [occurrenceExpense p c])"
      unfolding w'_def by (rule generateOccurrences_step[OF True "1.prems"(2)])
    then show ?thesis
      unfolding ih occurrences_due[OF "1.prems"(1) True]
      by (simp add: recordOccurrences_Cons w'_def)
  qed
qed

lemma markGenerated_rules:
  "tbl_recurring_expenses (markGenerated p c now d) = map (markRule p c now) (tbl_recurring_expenses d)"
  by (simp add: markGenerated_def UPDATE_RECURRING_def markRule_def)

lemma markGenerated_expenses: "tbl_expenses (markGenerated p c now d) = tbl_expenses d"
  by (simp add: markGenerated_def UPDATE_RECURRING_def)

lemma recordOccurrence_expenses:
  "tbl_expenses (recordOccurrence p uuid now d (k, c)) =
     tbl_expenses d @ [occurrenceRow p (uuid k) now c]"
  by (simp add: recordOccurrence_def markGenerated_expenses INSERT_EXPENSE_def)

lemma recordOccurrence_rules:
  "tbl_recurring_expenses (recordOccurrence p uuid now d (k, c)) =
     map (markRule p c now) (tbl_recurring_expenses d)"
  by (simp add: recordOccurrence_def markGenerated_rules INSERT_EXPENSE_def)

lemma recordOccurrences_expenses:
  "tbl_expenses (recordOccurrences p uuid now k cs d) =
     tbl_expenses d @ map (\<lambda>(j, c). occurrenceRow p (uuid j) now c) (zip [k..<k + length cs] cs)"
proof (induction cs arbitrary: k d)
  case Nil
  then show ?case by (simp add: recordOccurrences_Nil)
next
  case (Cons c cs)
  have "[k..<k + length (c # cs)] = k # [Suc k..<Suc k + length cs]"
    by (simp add: upt_rec)
  then show ?case
    by (simp add: recordOccurrences_Cons Cons.IH recordOccurrence_expenses)
qed

lemma markRule_twice: "markRule p c2 now (markRule p c1 now r) = markRule p c2 now r"
  by (simp add: markRule_def)

lemma recordOccurrences_rules:
  "tbl_recurring_expenses (recordOccurrences p uuid now k cs d) =
     (if cs = [] then tbl_recurring_expenses d
      else map (markRule p (last cs) now) (tbl_recurring_expenses d))"
proof (induction cs arbitrary: k d)
  case Nil
  then show ?case by (simp add: recordOccurrences_Nil)
next
  case (Cons c cs)
  show ?case
    by (simp add: recordOccurrences_Cons Cons.IH recordOccurrence_rules markRule_twice o_def)
qed

lemma generateForPattern_total:
  assumes "advances tz p" and "world_db w = Some d"
  shows "generateForPattern sod rnd uuid tz now p w g =
     Some (Inr (g @ map (occurrenceExpense p) (ruleOccurrences tz now p)),
           w\<lparr>world_db := Some (recordOccurrences p uuid now (length g)
                 (ruleOccurrences tz now p) d)\<rparr>)"
proof (cases "endedBefore (ruleEnd tz p) now")
  case True
  have "w\<lparr>world_db := Some d\<rparr> = w" using assms(2) by simp
  then show ?thesis using True
    by (simp add: generateForPattern_def ruleOccurrences_def ruleEnd_def recordOccurrences_Nil)
next
  case False
  then show ?thesis
    using generateOccurrences_total[OF assms, of sod rnd uuid now "ruleEnd tz p" "firstDate tz p" g]
    by (simp add: generateForPattern_def ruleOccurrences_def ruleEnd_def firstDate_def
        nextDate_def Let_def)
qed











lemma advances_days:
  "rec_interval p = Daily \<or> rec_interval p = Weekly \<or> rec_interval p = Custom \<Longrightarrow>
   0 < rec_intervalValue p \<Longrightarrow> advances tz p"
  by (auto simp: advances_def nextDate_def getNextDate_def addDays_def addWeeks_def days_ms_def)

lemma advances_other: "rec_interval p = OtherInterval \<Longrightarrow> advances tz p"
  by (simp add: advances_def nextDate_def getNextDate_def addDays_def days_ms_def)

lemma sameLocalDay_between:
  assumes "sameLocalDay tz c t1" "t1 \<le> t2" "t2 \<le> c"
  shows "sameLocalDay tz c t2"
proof -
  have a: "local_ms tz t1 div 86400000 \<le> local_ms tz t2 div 86400000"
    using assms(2) by (intro zdiv_mono1) (simp_all add: local_ms_def)
  have b: "local_ms tz t2 div 86400000 \<le> local_ms tz c div 86400000"
    using assms(3) by (intro zdiv_mono1) (simp_all add: local_ms_def)
  have c: "local_ms tz c div 86400000 = local_ms tz t1 div 86400000"
    using assms(1) unfolding sameLocalDay_def .
  show ?thesis unfolding sameLocalDay_def using a b c by linarith
qed

lemma sameLocalDay_sym: "sameLocalDay tz a b \<Longrightarrow> sameLocalDay tz b a"
  unfolding sameLocalDay_def by (rule sym)

lemma sameLocalDay_trans: "sameLocalDay tz a b \<Longrightarrow> sameLocalDay tz b c \<Longrightarrow> sameLocalDay tz a c"
  unfolding sameLocalDay_def by (rule trans)


lemma endedBefore_downward: "c \<le> c' \<Longrightarrow> endedBefore e c \<Longrightarrow> endedBefore e c'"
  by (cases e) (simp_all add: endedBefore_def isBefore_def)

lemma due_downward:
  assumes "c \<le> c'" "due tz now e c'"
  shows "due tz now e c"
proof -
  have e: "\<not> endedBefore e c"
    using assms endedBefore_downward[of c c' e] unfolding due_def by blast
  show ?thesis
  proof (cases "c < now")
    case True
    then show ?thesis using e unfolding due_def isBefore_def by blast
  next
    case False
    then have le: "now \<le> c" by linarith
    then have "\<not> c' < now" using assms(1) by linarith
    then have s: "sameLocalDay tz c' now" using assms(2) unfolding due_def isBefore_def by blast
    have "sameLocalDay tz c' c" by (rule sameLocalDay_between[OF s le assms(1)])
    then have "sameLocalDay tz c now"
      using s sameLocalDay_sym sameLocalDay_trans by blast
    then show ?thesis using e unfolding due_def by blast
  qed
qed



lemma occurrences_chain:
  "advances tz p \<Longrightarrow>
   set (occurrences tz now e p c) = {x. (\<exists>k. x = (nextDate tz p ^^ k) c) \<and> due tz now e x}"
proof (induction tz now e p c rule: occurrences.induct)
  case (1 tz now e p c)
  have ge: "c \<le> (nextDate tz p ^^ k) c" for k
  proof (induction k)
    case 0
    then show ?case by simp
  next
    case (Suc k)
    have "(nextDate tz p ^^ k) c < nextDate tz p ((nextDate tz p ^^ k) c)"
      using "1.prems" by (simp add: advances_def)
    then show ?case using Suc by simp
  qed
  show ?case
  proof (cases "due tz now e c")
    case False
    have "\<not> due tz now e ((nextDate tz p ^^ k) c)" for k
      using False due_downward[OF ge[of k]] by blast
    then show ?thesis using False by (auto simp: occurrences_not_due)
  next
    case True
    have guard: "due tz now e c \<and> c \<le> day_end tz now \<and> c < nextDate tz p c"
      using True "1.prems" by (simp add: due_le_day_end advances_def)
    have u: "occurrences tz now e p c = c # occurrences tz now e p (nextDate tz p c)"
      by (rule occurrences_due[OF "1.prems" True])
    have ih: "set (occurrences tz now e p (nextDate tz p c)) =
        {x. (\<exists>k. x = (nextDate tz p ^^ k) (nextDate tz p c)) \<and> due tz now e x}"
      by (rule "1.IH"[OF guard "1.prems"])
    have chain: "(\<exists>k. x = (nextDate tz p ^^ k) c) \<longleftrightarrow>
        x = c \<or> (\<exists>k. x = (nextDate tz p ^^ k) (nextDate tz p c))" for x
    proof
      assume "\<exists>k. x = (nextDate tz p ^^ k) c"
      then obtain k where k: "x = (nextDate tz p ^^ k) c" by blast
      show "x = c \<or> (\<exists>k. x = (nextDate tz p ^^ k) (nextDate tz p c))"
      proof (cases k)
        case 0
        then show ?thesis using k by simp
      next
        case (Suc j)
        then have "x = (nextDate tz p ^^ j) (nextDate tz p c)"
          using k by (simp add: funpow_swap1)
        then show ?thesis by blast
      qed
    next
      assume "x = c \<or> (\<exists>k. x = (nextDate tz p ^^ k) (nextDate tz p c))"
      then show "\<exists>k. x = (nextDate tz p ^^ k) c"
      proof
        assume "x = c"
        then have "x = (nextDate tz p ^^ 0) c" by simp
        then show ?thesis by blast
      next
        assume "\<exists>k. x = (nextDate tz p ^^ k) (nextDate tz p c)"
        then obtain k where "x = (nextDate tz p ^^ k) (nextDate tz p c)" by blast
        then have "x = (nextDate tz p ^^ Suc k) c" by (simp add: funpow_swap1)
        then show ?thesis by blast
      qed
    qed
    have "{x. (\<exists>k. x = (nextDate tz p ^^ k) c) \<and> due tz now e x} =
        {x. (x = c \<or> (\<exists>k. x = (nextDate tz p ^^ k) (nextDate tz p c))) \<and> due tz now e x}"
      by (rule Collect_cong) (simp only: chain)
    also have "\<dots> = insert c {x. (\<exists>k. x = (nextDate tz p ^^ k) (nextDate tz p c)) \<and>
        due tz now e x}"
      using True by blast
    finally show ?thesis unfolding u ih[symmetric] by simp
  qed
qed

lemma occurrences_nth:
  "advances tz p \<Longrightarrow>
   occurrences tz now e p c =
     map (\<lambda>k. (nextDate tz p ^^ k) c) [0..<length (occurrences tz now e p c)]"
proof (induction tz now e p c rule: occurrences.induct)
  case (1 tz now e p c)
  show ?case
  proof (cases "due tz now e c")
    case False
    then show ?thesis by (simp add: occurrences_not_due)
  next
    case True
    have guard: "due tz now e c \<and> c \<le> day_end tz now \<and> c < nextDate tz p c"
      using True "1.prems" by (simp add: due_le_day_end advances_def)
    have u: "occurrences tz now e p c = c # occurrences tz now e p (nextDate tz p c)"
      by (rule occurrences_due[OF "1.prems" True])
    define n where "n = length (occurrences tz now e p (nextDate tz p c))"
    have ih: "occurrences tz now e p (nextDate tz p c) =
        map (\<lambda>k. (nextDate tz p ^^ k) (nextDate tz p c)) [0..<n]"
      unfolding n_def by (rule "1.IH"[OF guard "1.prems"])
    have "map (\<lambda>k. (nextDate tz p ^^ k) c) [0..<Suc n] =
        c # map (\<lambda>k. (nextDate tz p ^^ k) (nextDate tz p c)) [0..<n]"
      by (simp add: upt_conv_Cons map_Suc_upt[symmetric] funpow_swap1 del: upt_Suc)
    then show ?thesis using ih by (simp add: u n_def[symmetric] del: upt_Suc)
  qed
qed













lemmas planner_example_defs = world_with_rules_def locked_world_def empty_database_def
  rent_rule_def gym_rule_def market_rule_def evening_rule_def mid_april_def mid_february_def




text \<open>
  C6 (as amended). For a rule that advances, the planner returns after materializing the
  occurrences of \<open>ruleOccurrences\<close>, one expense row each, and it sets \<open>lastGenerated\<close> to
  the last of them. A rule whose end date is before now materializes nothing. Otherwise
  the materialized occurrences are exactly the dates of the chain that starts at the next
  date after \<open>lastGenerated\<close> and that are due: before now or on the local calendar day of
  now, and not after the end date. With the local time zone UTC, the monthly rule from
  2024-01-01, last generated 2024-01-01, run on 2024-04-15, materializes the expenses of
  2024-02-01, 2024-03-01 and 2024-04-01 and sets \<open>lastGenerated\<close> to 2024-04-01.
\<close>

theorem planner_materializes_due_occurrences:
  assumes "advances tz p" and "world_db w = Some d"
  shows "generateForPattern sod rnd uuid tz now p w g =
           Some (Inr (g @ map (occurrenceExpense p) (ruleOccurrences tz now p)),
                 w\<lparr>world_db := Some (recordOccurrences p uuid now (length g)
                       (ruleOccurrences tz now p) d)\<rparr>) \<and>
         tbl_expenses (recordOccurrences p uuid now (length g) (ruleOccurrences tz now p) d) =
           tbl_expenses d @
           map2 (\<lambda>j c. occurrenceRow p (uuid j) now c)
             [length g..<length g + length (ruleOccurrences tz now p)]
             (ruleOccurrences tz now p) \<and>
         tbl_recurring_expenses
             (recordOccurrences p uuid now (length g) (ruleOccurrences tz now p) d) =
           (if ruleOccurrences tz now p = [] then tbl_recurring_expenses d
            else map (markRule p (last (ruleOccurrences tz now p)) now)
                   (tbl_recurring_expenses d)) \<and>
         (endedBefore (ruleEnd tz p) now \<longrightarrow> ruleOccurrences tz now p = []) \<and>
         (\<not> endedBefore (ruleEnd tz p) now \<longrightarrow>
            set (ruleOccurrences tz now p) =
              {c. (\<exists>k. c = (nextDate tz p ^^ k) (firstDate tz p)) \<and>
                  due tz now (ruleEnd tz p) c} \<and>
            ruleOccurrences tz now p =
              map (\<lambda>k. (nextDate tz p ^^ k) (firstDate tz p))
                [0..<length (ruleOccurrences tz now p)]) \<and>
         generated_dates (generateRecurringExpenses plain_sodium sample_randomness sample_uuid 0
             mid_april (world_with_rules [rent_rule])) =
           Some [''2024-02-01'', ''2024-03-01'', ''2024-04-01''] \<and>
         last_generated_after (generateRecurringExpenses plain_sodium sample_randomness
             sample_uuid 0 mid_april (world_with_rules [rent_rule])) =
           [Some (Instant (parseISO 0 (DateOnly 2024 4 1)))]"
proof -
  have 1: "generateForPattern sod rnd uuid tz now p w g =
           Some (Inr (g @ map (occurrenceExpense p) (ruleOccurrences tz now p)),
                 w\<lparr>world_db := Some (recordOccurrences p uuid now (length g)
                       (ruleOccurrences tz now p) d)\<rparr>)"
    by (rule generateForPattern_total[OF assms])
  have 2: "tbl_expenses (recordOccurrences p uuid now (length g) (ruleOccurrences tz now p) d) =
           tbl_expenses d @
           map2 (\<lambda>j c. occurrenceRow p (uuid j) now c)
             [length g..<length g + length (ruleOccurrences tz now p)]
             (ruleOccurrences tz now p)"
    by (rule recordOccurrences_expenses)
  have 3: "tbl_recurring_expenses
             (recordOccurrences p uuid now (length g) (ruleOccurrences tz now p) d) =
           (if ruleOccurrences tz now p = [] then tbl_recurring_expenses d
            else map (markRule p (last (ruleOccurrences tz now p)) now)
                   (tbl_recurring_expenses d))"
    by (rule recordOccurrences_rules)
  have 4: "endedBefore (ruleEnd tz p) now \<longrightarrow> ruleOccurrences tz now p = []"
    by (simp add: ruleOccurrences_def)
  have 5: "\<not> endedBefore (ruleEnd tz p) now \<longrightarrow>
            set (ruleOccurrences tz now p) =
              {c. (\<exists>k. c = (nextDate tz p ^^ k) (firstDate tz p)) \<and>
                  due tz now (ruleEnd tz p) c} \<and>
            ruleOccurrences tz now p =
              map (\<lambda>k. (nextDate tz p ^^ k) (firstDate tz p))
                [0..<length (ruleOccurrences tz now p)]"
    using occurrences_chain[OF assms(1), of now "ruleEnd tz p" "firstDate tz p"]
      occurrences_nth[OF assms(1), of now "ruleEnd tz p" "firstDate tz p"]
    by (simp add: ruleOccurrences_def)
  have 6: "generated_dates (generateRecurringExpenses plain_sodium sample_randomness sample_uuid 0
             mid_april (world_with_rules [rent_rule])) =
           Some [''2024-02-01'', ''2024-03-01'', ''2024-04-01'']"
    by code_simp
  have 7: "last_generated_after (generateRecurringExpenses plain_sodium sample_randomness
             sample_uuid 0 mid_april (world_with_rules [rent_rule])) =
           [Some (Instant (parseISO 0 (DateOnly 2024 4 1)))]"
    by code_simp
  show ?thesis using 1 2 3 4 5 6 7 by blast
qed

theorem planner_materializes_due_occurrences_witness:
  "advances 0 market_rule \<and>
   world_db (world_with_rules [market_rule]) =
     Some (empty_database\<lparr>tbl_recurring_expenses := [market_rule]\<rparr>) \<and>
   \<not> endedBefore (ruleEnd 0 market_rule) mid_april \<and>
   generateForPattern plain_sodium sample_randomness sample_uuid 0 mid_april market_rule
       (world_with_rules [market_rule]) [] =
     Some (Inr (map (occurrenceExpense market_rule) (ruleOccurrences 0 mid_april market_rule)),
           (world_with_rules [market_rule])\<lparr>world_db :=
              Some (recordOccurrences market_rule sample_uuid mid_april 0
                 (ruleOccurrences 0 mid_april market_rule)
                 (empty_database\<lparr>tbl_recurring_expenses := [market_rule]\<rparr>))\<rparr>) \<and>
   set (ruleOccurrences 0 mid_april market_rule) =
     {c. (\<exists>k. c = (nextDate 0 market_rule ^^ k) (firstDate 0 market_rule)) \<and>
         due 0 mid_april (ruleEnd 0 market_rule) c} \<and>
   ruleOccurrences 0 mid_april market_rule =
     [parseISO 0 (DateOnly 2024 4 8), parseISO 0 (DateOnly 2024 4 15)]"
proof -
  have adv: "advances 0 market_rule"
    by (rule advances_days) (simp_all add: market_rule_def rent_rule_def)
  have db: "world_db (world_with_rules [market_rule]) =
      Some (empty_database\<lparr>tbl_recurring_expenses := [market_rule]\<rparr>)"
    by (simp add: world_with_rules_def)
  have ne: "\<not> endedBefore (ruleEnd 0 market_rule) mid_april"
    by (simp add: endedBefore_def ruleEnd_def market_rule_def rent_rule_def)
  have occ: "ruleOccurrences 0 mid_april market_rule =
      [parseISO 0 (DateOnly 2024 4 8), parseISO 0 (DateOnly 2024 4 15)]"
    by code_simp
  note t = planner_materializes_due_occurrences[OF adv db, of plain_sodium sample_randomness
        sample_uuid mid_april "[]"]
  have a: "generateForPattern plain_sodium sample_randomness sample_uuid 0 mid_april market_rule
       (world_with_rules [market_rule]) [] =
     Some (Inr (map (occurrenceExpense market_rule) (ruleOccurrences 0 mid_april market_rule)),
           (world_with_rules [market_rule])\<lparr>world_db :=
              Some (recordOccurrences market_rule sample_uuid mid_april 0
                 (ruleOccurrences 0 mid_april market_rule)
                 (empty_database\<lparr>tbl_recurring_expenses := [market_rule]\<rparr>))\<rparr>)"
    using conjunct1[OF t] by simp
  have b: "set (ruleOccurrences 0 mid_april market_rule) =
     {c. (\<exists>k. c = (nextDate 0 market_rule ^^ k) (firstDate 0 market_rule)) \<and>
         due 0 mid_april (ruleEnd 0 market_rule) c}"
    using t ne by blast
  show ?thesis
    by (intro conjI) (rule adv db ne a b occ)+
qed

text \<open>
  C6 as stated fails in both directions. For the rule that ends on 2024-03-15, the
  occurrence of 2024-02-01 is not after now (2024-04-15) and not after the end date, and
  the run materializes nothing. For the daily rule last generated on 2024-04-14 at 18:00,
  the occurrence of 2024-04-15 at 18:00 is after now (12:00 of that day), and the run
  materializes it.
\<close>

theorem planner_due_counterexample:
  "firstDate 0 gym_rule = parseISO 0 (DateOnly 2024 2 1) \<and>
   spec_due mid_april (ruleEnd 0 gym_rule) (firstDate 0 gym_rule) \<and>
   generated_dates (generateRecurringExpenses plain_sodium sample_randomness sample_uuid 0
      mid_april (world_with_rules [gym_rule])) = Some [] \<and>
   firstDate 0 evening_rule = 1713204000000 \<and>
   \<not> spec_due mid_april (ruleEnd 0 evening_rule) (firstDate 0 evening_rule) \<and>
   generated_dates (generateRecurringExpenses plain_sodium sample_randomness sample_uuid 0
      mid_april (world_with_rules [evening_rule])) = Some [''2024-04-15'']"
  by code_simp

section \<open>Properties of the personal expense service and of undo\<close>

lemma encryptNotes_db: "encryptNotes sod rnd n w = (r, w1) \<Longrightarrow> world_db w1 = world_db w"
  by (auto simp: encryptNotes_def encrypt_def ensureEncryptionKey_def initEncryptionKey_def
      split: option.splits if_splits prod.splits sum.splits)

lemma decryptNotes_db: "decryptNotes sod rnd n w = (r, w1) \<Longrightarrow> world_db w1 = world_db w"
  by (auto simp: decryptNotes_def decrypt_def ensureEncryptionKey_def initEncryptionKey_def
      split: option.splits if_splits prod.splits sum.splits open_result.splits)

lemma getExpenseById_db: "getExpenseById sod rnd i w = (r, w1) \<Longrightarrow> world_db w1 = world_db w"
  by (auto simp: getExpenseById_def getDatabase_def dest: decryptNotes_db
      split: option.splits list.splits prod.splits sum.splits)

















end
